theory Spec2Isabelle
  imports Complex_Main "HOL-Library.AList"
begin

section \<open>Numbers, exceptions and dates\<close>

text \<open>
  The program is \<^verbatim>\<open>src/main_starter.py\<close>. Its incomes, amounts and scores are Python
  floats; a float is modelled by the rational number it denotes. Incomes and amounts are
  only compared with whole numbers. The running score is rounded to a binary64 float after
  every addition and subtraction. The value of \<^verbatim>\<open>round(base_score, 3)\<close> and the
  thresholds of the tiers are floats nearest to decimals with at most three places; such a
  float is named by its decimal, and floats nearest to different three-place decimals
  compare as the decimals do. NaN and the infinities are not modelled.
\<close>

datatype py_exception = ValueError string | TimeoutError string | OtherException string

text \<open>\<^verbatim>\<open>str(e)\<close> of an exception: its message.\<close>

fun str_exception :: "py_exception \<Rightarrow> string" where
  "str_exception (ValueError m) = m"
| "str_exception (TimeoutError m) = m"
| "str_exception (OtherException m) = m"

text \<open>
  Python's \<^verbatim>\<open>round(x, n)\<close> and the \<^verbatim>\<open>.nf\<close> formats round to the nearest decimal with
  \<open>n\<close> places, a tie going to the even neighbour.
\<close>

definition round_half_even :: "rat \<Rightarrow> int" where
  "round_half_even y =
     (let f = \<lfloor>y\<rfloor>; d = y - of_int f
      in if d < 1 / 2 then f else if 1 / 2 < d then f + 1
         else if even f then f else f + 1)"

definition py_round :: "rat \<Rightarrow> nat \<Rightarrow> rat" where
  "py_round x n = of_int (round_half_even (x * 10 ^ n)) / 10 ^ n"

text \<open>
  A \<^verbatim>\<open>datetime\<close> is the proleptic Gregorian ordinal of its date (\<^verbatim>\<open>toordinal()\<close>) and
  the microseconds elapsed since midnight. \<^verbatim>\<open>(a - b).days\<close> is the floor of the difference
  in days, as \<^verbatim>\<open>timedelta\<close> normalises it.
\<close>

record datetime =
  dt_ordinal :: int
  dt_micros :: int

definition timedelta_days :: "datetime \<Rightarrow> datetime \<Rightarrow> int" where
  "timedelta_days a b =
     ((dt_ordinal a - dt_ordinal b) * 86400000000 + (dt_micros a - dt_micros b))
       div 86400000000"

definition is_leap :: "nat \<Rightarrow> bool" where
  "is_leap y = (y mod 4 = 0 \<and> (y mod 100 \<noteq> 0 \<or> y mod 400 = 0))"

definition days_before_year :: "nat \<Rightarrow> int" where
  "days_before_year year =
     (let y = int year - 1 in y * 365 + y div 4 - y div 100 + y div 400)"

text \<open>Index 0 of the two tables is a placeholder that is never read.\<close>

definition DAYS_IN_MONTH :: "nat list" where
  "DAYS_IN_MONTH = [0, 31, 28, 31, 30, 31, 30, 31, 31, 30, 31, 30, 31]"

definition DAYS_BEFORE_MONTH :: "int list" where
  "DAYS_BEFORE_MONTH = [- 1, 0, 31, 59, 90, 120, 151, 181, 212, 243, 273, 304, 334]"

definition days_in_month :: "nat \<Rightarrow> nat \<Rightarrow> nat" where
  "days_in_month year month =
     (if month = 2 \<and> is_leap year then 29 else DAYS_IN_MONTH ! month)"

definition days_before_month :: "nat \<Rightarrow> nat \<Rightarrow> int" where
  "days_before_month year month =
     DAYS_BEFORE_MONTH ! month + (if 2 < month \<and> is_leap year then 1 else 0)"

definition ymd2ord :: "nat \<Rightarrow> nat \<Rightarrow> nat \<Rightarrow> int" where
  "ymd2ord year month day =
     days_before_year year + days_before_month year month + int day"

text \<open>
  \<^verbatim>\<open>datetime.strptime(s, "%Y-%m-%d")\<close>. The library turns the format into the regular
  expression
  \<^verbatim>\<open>(?P<Y>\d\d\d\d)-(?P<m>1[0-2]|0[1-9]|[1-9])-(?P<d>3[0-1]|[1-2]\d|0[1-9]|[1-9]| [1-9])\<close>,
  matches it at the start of the string, raises \<^verbatim>\<open>ValueError\<close> when it does not match or
  when text remains after the match, and raises \<^verbatim>\<open>ValueError\<close> again when the three
  numbers are not a date (year 0, 30 February). Characters are bytes here, so \<^verbatim>\<open>\d\<close> is
  an ASCII digit.
\<close>

definition digit_of :: "char \<Rightarrow> nat option" where
  "digit_of c =
     map_of [(CHR ''0'', 0), (CHR ''1'', 1), (CHR ''2'', 2), (CHR ''3'', 3), (CHR ''4'', 4),
             (CHR ''5'', 5), (CHR ''6'', 6), (CHR ''7'', 7), (CHR ''8'', 8), (CHR ''9'', 9)] c"

text \<open>
  One alternative of a group made of two character classes, or of one: the text matched,
  read as a number the way \<^verbatim>\<open>int\<close> reads it (a leading blank counts for nothing), and the
  rest of the string.
\<close>

definition digit_value :: "char \<Rightarrow> nat" where
  "digit_value c = (case digit_of c of None \<Rightarrow> 0 | Some x \<Rightarrow> x)"

fun two_chars :: "(char \<Rightarrow> bool) \<Rightarrow> (char \<Rightarrow> bool) \<Rightarrow> string \<Rightarrow> (nat \<times> string) option" where
  "two_chars p q (a # b # rest) =
     (if p a \<and> q b
      then Some (10 * digit_value a + digit_value b, rest)
      else None)"
| "two_chars p q _ = None"

fun one_char :: "(char \<Rightarrow> bool) \<Rightarrow> string \<Rightarrow> (nat \<times> string) option" where
  "one_char p (a # rest) = (if p a then Some (digit_value a, rest) else None)"
| "one_char p _ = None"

definition in_range :: "nat \<Rightarrow> nat \<Rightarrow> char \<Rightarrow> bool" where
  "in_range lo hi c = (case digit_of c of None \<Rightarrow> False | Some x \<Rightarrow> lo \<le> x \<and> x \<le> hi)"

text \<open>
  Ordered alternation with backtracking: the first alternative after which the rest of
  the expression (the continuation \<open>k\<close>) matches.
\<close>

fun first_match ::
  "(string \<Rightarrow> (nat \<times> string) option) list \<Rightarrow> (nat \<Rightarrow> string \<Rightarrow> 'a option) \<Rightarrow> string \<Rightarrow> 'a option" where
  "first_match [] k s = None"
| "first_match (alt # alts) k s =
     (case alt s of
        None \<Rightarrow> first_match alts k s
      | Some (v, rest) \<Rightarrow>
          (case k v rest of None \<Rightarrow> first_match alts k s | Some r \<Rightarrow> Some r))"

definition month_alternatives :: "(string \<Rightarrow> (nat \<times> string) option) list" where
  "month_alternatives =
     [two_chars (in_range 1 1) (in_range 0 2),
      two_chars (in_range 0 0) (in_range 1 9),
      one_char (in_range 1 9)]"

definition day_alternatives :: "(string \<Rightarrow> (nat \<times> string) option) list" where
  "day_alternatives =
     [two_chars (in_range 3 3) (in_range 0 1),
      two_chars (in_range 1 2) (in_range 0 9),
      two_chars (in_range 0 0) (in_range 1 9),
      one_char (in_range 1 9),
      two_chars (\<lambda>c. c = CHR '' '') (in_range 1 9)]"

fun literal_dash :: "string \<Rightarrow> string option" where
  "literal_dash (c # rest) = (if c = CHR ''-'' then Some rest else None)"
| "literal_dash [] = None"

fun four_digits :: "string \<Rightarrow> (nat \<times> string) option" where
  "four_digits (a # b # c # d # rest) =
     (case (digit_of a, digit_of b, digit_of c, digit_of d) of
        (Some w, Some x, Some y, Some z) \<Rightarrow> Some (1000 * w + 100 * x + 10 * y + z, rest)
      | _ \<Rightarrow> None)"
| "four_digits _ = None"

text \<open>The match of the whole expression: year, month, day and the unconverted rest.\<close>

definition match_ymd :: "string \<Rightarrow> (nat \<times> nat \<times> nat \<times> string) option" where
  "match_ymd s =
     (case four_digits s of
        None \<Rightarrow> None
      | Some (y, s1) \<Rightarrow>
          (case literal_dash s1 of
             None \<Rightarrow> None
           | Some s2 \<Rightarrow>
               first_match month_alternatives
                 (\<lambda>m s3. case literal_dash s3 of
                            None \<Rightarrow> None
                          | Some s4 \<Rightarrow>
                              first_match day_alternatives (\<lambda>d s5. Some (y, m, d, s5)) s4)
                 s2))"

definition strptime_ymd :: "string \<Rightarrow> py_exception + datetime" where
  "strptime_ymd s =
     (case match_ymd s of
        None \<Rightarrow> Inl (ValueError ''time data does not match format'')
      | Some (y, m, d, rest) \<Rightarrow>
          if rest \<noteq> [] then Inl (ValueError ''unconverted data remains'')
          else if \<not> (1 \<le> y \<and> y \<le> 9999) then Inl (ValueError ''year is out of range'')
          else if \<not> (1 \<le> m \<and> m \<le> 12) then Inl (ValueError ''month must be in 1..12'')
          else if \<not> (1 \<le> d \<and> d \<le> days_in_month y m)
          then Inl (ValueError ''day is out of range for month'')
          else Inr \<lparr>dt_ordinal = ymd2ord y m d, dt_micros = 0\<rparr>)"

section \<open>Customer profiles\<close>

text \<open>
  A transaction is a dictionary read with \<^verbatim>\<open>t.get(key, default)\<close>: a missing key is
  \<open>None\<close>. Amounts are numbers, as the data model has them.
\<close>

record transaction =
  amount :: "rat option"
  description :: "string option"
  ts :: "string option"

record customer_profile =
  customer_id :: string
  income :: rat
  credit_score :: int
  account_type :: string
  customer_since :: string
  risk_tier :: string
  recent_transactions :: "transaction list"
  banking_products :: "string list"
  last_review_date :: string

text \<open>A search result is a dictionary too, read with \<^verbatim>\<open>r.get(key, default)\<close>.\<close>

record search_result =
  filename :: "string option"
  collection :: "string option"
  final_score :: "rat option"
  relevance_score :: "rat option"
  document :: "string option"

text \<open>\<^verbatim>\<open>CustomerProfile(customer_id=cid)\<close>: the defaults of the class.\<close>

definition CustomerProfile :: "string \<Rightarrow> customer_profile" where
  "CustomerProfile cid =
     \<lparr>customer_id = cid, income = 0, credit_score = 0, account_type = ''standard'',
      customer_since = [], risk_tier = ''medium'', recent_transactions = [],
      banking_products = [], last_review_date = []\<rparr>"

definition tx :: "rat \<Rightarrow> string \<Rightarrow> string \<Rightarrow> transaction" where
  "tx a d t = \<lparr>amount = Some a, description = Some d, ts = Some t\<rparr>"

text \<open>The sample profiles of \<^verbatim>\<open>_load_customer_profiles\<close>.\<close>

definition profile_12345 :: customer_profile where
  "profile_12345 =
     \<lparr>customer_id = ''12345'', income = 75000, credit_score = 780,
      account_type = ''premium_plus'', customer_since = ''2019-05-15'', risk_tier = ''low'',
      recent_transactions =
        [tx 4500 ''Salary Deposit'' ''2024-03-20'', tx 1500 ''Mortgage Payment'' ''2024-03-15'',
         tx 300 ''Investment Contribution'' ''2024-03-10'', tx 200 ''Utility Bills'' ''2024-03-05''],
      banking_products = [''checking'', ''savings'', ''mortgage'', ''investment'', ''credit_card''],
      last_review_date = ''2024-01-10''\<rparr>"

definition profile_67890 :: customer_profile where
  "profile_67890 =
     \<lparr>customer_id = ''67890'', income = 45000, credit_score = 680,
      account_type = ''standard'', customer_since = ''2021-08-20'', risk_tier = ''medium'',
      recent_transactions =
        [tx 3200 ''Salary Deposit'' ''2024-03-20'', tx 1200 ''Rent Payment'' ''2024-03-14'',
         tx 400 ''Car Payment'' ''2024-03-08'', tx 150 ''Student Loan'' ''2024-03-02''],
      banking_products = [''checking'', ''savings'', ''credit_card''],
      last_review_date = ''2024-02-15''\<rparr>"

definition profile_11111 :: customer_profile where
  "profile_11111 =
     \<lparr>customer_id = ''11111'', income = 28000, credit_score = 620,
      account_type = ''basic'', customer_since = ''2023-01-10'', risk_tier = ''high'',
      recent_transactions =
        [tx 2300 ''Salary Deposit'' ''2024-03-20'', tx 800 ''Rent Payment'' ''2024-03-12'',
         tx 300 ''Credit Card Payment'' ''2024-03-07'', tx 150 ''Overdraft Fee'' ''2024-03-01''],
      banking_products = [''checking''],
      last_review_date = ''2024-03-01''\<rparr>"

definition default_profiles :: "(string \<times> customer_profile) list" where
  "default_profiles =
     [(''12345'', profile_12345), (''67890'', profile_67890), (''11111'', profile_11111)]"

text \<open>\<^verbatim>\<open>[t.get("amount", 0) for t in transactions]\<close>\<close>

definition amounts_of :: "transaction list \<Rightarrow> rat list" where
  "amounts_of txs = map (\<lambda>t. case amount t of None \<Rightarrow> 0 | Some a \<Rightarrow> a) txs"

text \<open>
  \<^verbatim>\<open>max(xs)\<close> and \<^verbatim>\<open>min(xs)\<close> of a list keep the first extreme element met; on the
  empty list they raise, and the program calls them on non-empty lists only.
\<close>

fun py_max :: "rat list \<Rightarrow> py_exception + rat" where
  "py_max [] = Inl (ValueError ''max() arg is an empty sequence'')"
| "py_max (x # xs) = Inr (fold (\<lambda>y m. if m < y then y else m) xs x)"

fun py_min :: "rat list \<Rightarrow> py_exception + rat" where
  "py_min [] = Inl (ValueError ''min() arg is an empty sequence'')"
| "py_min (x # xs) = Inr (fold (\<lambda>y m. if y < m then y else m) xs x)"

section \<open>The risk score\<close>

text \<open>
  The variable \<^verbatim>\<open>base_score\<close> of \<^verbatim>\<open>_calculate_enhanced_risk_score\<close> is a binary64
  float, and every \<^verbatim>\<open>base_score -= 0.15\<close> rounds. \<open>binade n x 0\<close> is the exponent \<open>e\<close>
  with \<open>2 ^ e \<le> x < 2 ^ (e + 1)\<close> of a positive \<open>x\<close> (found in at most \<open>n\<close> steps), and
  \<open>binary64 x\<close> is the float nearest to \<open>x\<close>: the nearest multiple of \<open>2 ^ (e - 52)\<close>, a
  tie going to the even multiple. Overflow and subnormal numbers are left out; the scores
  lie between 0.01 and 1.
\<close>

fun binade :: "nat \<Rightarrow> rat \<Rightarrow> int \<Rightarrow> int" where
  "binade 0 x e = e"
| "binade (Suc n) x e =
     (if x < 1 then binade n (x * 2) (e - 1)
      else if 2 \<le> x then binade n (x / 2) (e + 1)
      else e)"

definition binary64 :: "rat \<Rightarrow> rat" where
  "binary64 x =
     (if x = 0 then 0
      else (let e = binade 1100 \<bar>x\<bar> 0;
                ulp = (if 52 \<le> e then 2 ^ nat (e - 52) else 1 / 2 ^ nat (52 - e))
            in of_int (round_half_even (x / ulp)) * ulp))"

text \<open>The distance between neighbouring floats from 1 to 2; below 1 they are closer.\<close>

definition float_eps :: rat where
  "float_eps = 1 / 2 ^ 52"

text \<open>
  \<^verbatim>\<open>base_score -= d\<close> and \<^verbatim>\<open>base_score += d\<close> for a decimal literal \<open>d\<close>: the literal is
  the float nearest to it, and the difference or sum is rounded.
\<close>

definition float_sub :: "rat \<Rightarrow> rat \<Rightarrow> rat" where
  "float_sub base_score d = binary64 (base_score - binary64 d)"

definition float_add :: "rat \<Rightarrow> rat \<Rightarrow> rat" where
  "float_add base_score d = binary64 (base_score + binary64 d)"

text \<open>
  The function updates \<^verbatim>\<open>base_score\<close> in five steps; each step is a function of the
  profile and the score so far.
\<close>

definition income_factor :: "customer_profile \<Rightarrow> rat \<Rightarrow> rat" where
  "income_factor p base_score =
     (if income p \<ge> 100000 then float_sub base_score (15 / 100)
      else if income p \<ge> 75000 then float_sub base_score (10 / 100)
      else if income p \<ge> 50000 then float_sub base_score (5 / 100)
      else if income p < 30000 then float_add base_score (10 / 100)
      else base_score)"

definition credit_factor :: "customer_profile \<Rightarrow> rat \<Rightarrow> rat" where
  "credit_factor p base_score =
     (if credit_score p \<ge> 750 then float_sub base_score (15 / 100)
      else if credit_score p \<ge> 700 then float_sub base_score (8 / 100)
      else if credit_score p \<ge> 650 then float_add base_score (5 / 100)
      else if credit_score p > 0 then float_add base_score (15 / 100)
      else base_score)"

text \<open>
  \<^verbatim>\<open>years = (datetime.now() - since).days / 365.25\<close>. The quotient is compared with the
  whole numbers 5, 3 and 1 only; a whole number of days divided by 365.25 is either a whole
  number or at least 1/1461 away from one, so the rounding of the division does not change
  the comparisons, and the quotient is kept exact.
\<close>

definition tenure_years :: "datetime \<Rightarrow> datetime \<Rightarrow> rat" where
  "tenure_years now since = of_int (timedelta_days now since) / (36525 / 100)"

text \<open>
  The tenure step: \<^verbatim>\<open>except ValueError: pass\<close> catches the parser's error and leaves
  the score as it is; any other exception would leave the function.
\<close>

definition tenure_factor :: "datetime \<Rightarrow> customer_profile \<Rightarrow> rat \<Rightarrow> py_exception + rat" where
  "tenure_factor now p base_score =
     (if customer_since p \<noteq> []
      then (case strptime_ymd (customer_since p) of
              Inl (ValueError m) \<Rightarrow> Inr base_score
            | Inl e \<Rightarrow> Inl e
            | Inr since \<Rightarrow>
                (let years = tenure_years now since
                 in if years \<ge> 5 then Inr (float_sub base_score (10 / 100))
                    else if years \<ge> 3 then Inr (float_sub base_score (5 / 100))
                    else if years < 1 then Inr (float_add base_score (8 / 100))
                    else Inr base_score))
      else Inr base_score)"

definition product_factor :: "customer_profile \<Rightarrow> rat \<Rightarrow> rat" where
  "product_factor p base_score =
     (let num_products = length (banking_products p)
      in if num_products \<ge> 4 then float_sub base_score (8 / 100)
         else if num_products \<ge> 2 then float_sub base_score (3 / 100)
         else if num_products \<le> 1 then float_add base_score (5 / 100)
         else base_score)"

definition transaction_factor :: "customer_profile \<Rightarrow> rat \<Rightarrow> py_exception + rat" where
  "transaction_factor p base_score =
     (let transactions = recent_transactions p
      in if transactions \<noteq> []
         then (let amounts = amounts_of transactions
               in case (if amounts \<noteq> [] then py_max amounts else Inr 0) of
                    Inl e \<Rightarrow> Inl e
                  | Inr max_amount \<Rightarrow>
                      if max_amount > 10000 then Inr (float_add base_score (10 / 100))
                      else if max_amount > 5000 then Inr (float_add base_score (3 / 100))
                      else Inr base_score)
         else Inr base_score)"

text \<open>
  The float held by \<^verbatim>\<open>base_score\<close> when the last line of the function is reached. The
  current time is read once, in the tenure step; it is the argument \<open>now\<close>.
\<close>

definition final_base_score ::
  "datetime \<Rightarrow> customer_profile \<Rightarrow> search_result list \<Rightarrow> py_exception + rat" where
  "final_base_score now p search_results =
     (case tenure_factor now p (credit_factor p (income_factor p (5 / 10))) of
        Inl e \<Rightarrow> Inl e
      | Inr b \<Rightarrow> transaction_factor p (product_factor p b))"

text \<open>
  \<^verbatim>\<open>return max(0.0, min(1.0, round(base_score, 3)))\<close>. \<^verbatim>\<open>round\<close> returns the float
  nearest to the three-place decimal nearest to \<^verbatim>\<open>base_score\<close>; the model returns that
  decimal.
\<close>

definition calculate_enhanced_risk_score ::
  "datetime \<Rightarrow> customer_profile \<Rightarrow> search_result list \<Rightarrow> py_exception + rat" where
  "calculate_enhanced_risk_score now p search_results =
     (case final_base_score now p search_results of
        Inl e \<Rightarrow> Inl e
      | Inr base_score \<Rightarrow> Inr (max 0 (min 1 (py_round base_score 3))))"

text \<open>
  The same five steps in exact decimal arithmetic. These are not values held by the
  program: they are the decimals that its floats approximate, and the rounded score is
  shown below to be their sum.
\<close>

definition exact_income_factor :: "customer_profile \<Rightarrow> rat \<Rightarrow> rat" where
  "exact_income_factor p base_score =
     (if income p \<ge> 100000 then base_score - 15 / 100
      else if income p \<ge> 75000 then base_score - 10 / 100
      else if income p \<ge> 50000 then base_score - 5 / 100
      else if income p < 30000 then base_score + 10 / 100
      else base_score)"

definition exact_credit_factor :: "customer_profile \<Rightarrow> rat \<Rightarrow> rat" where
  "exact_credit_factor p base_score =
     (if credit_score p \<ge> 750 then base_score - 15 / 100
      else if credit_score p \<ge> 700 then base_score - 8 / 100
      else if credit_score p \<ge> 650 then base_score + 5 / 100
      else if credit_score p > 0 then base_score + 15 / 100
      else base_score)"

definition exact_tenure_factor ::
  "datetime \<Rightarrow> customer_profile \<Rightarrow> rat \<Rightarrow> py_exception + rat" where
  "exact_tenure_factor now p base_score =
     (if customer_since p \<noteq> []
      then (case strptime_ymd (customer_since p) of
              Inl (ValueError m) \<Rightarrow> Inr base_score
            | Inl e \<Rightarrow> Inl e
            | Inr since \<Rightarrow>
                (let years = tenure_years now since
                 in if years \<ge> 5 then Inr (base_score - 10 / 100)
                    else if years \<ge> 3 then Inr (base_score - 5 / 100)
                    else if years < 1 then Inr (base_score + 8 / 100)
                    else Inr base_score))
      else Inr base_score)"

definition exact_product_factor :: "customer_profile \<Rightarrow> rat \<Rightarrow> rat" where
  "exact_product_factor p base_score =
     (let num_products = length (banking_products p)
      in if num_products \<ge> 4 then base_score - 8 / 100
         else if num_products \<ge> 2 then base_score - 3 / 100
         else if num_products \<le> 1 then base_score + 5 / 100
         else base_score)"

definition exact_transaction_factor :: "customer_profile \<Rightarrow> rat \<Rightarrow> py_exception + rat" where
  "exact_transaction_factor p base_score =
     (let transactions = recent_transactions p
      in if transactions \<noteq> []
         then (let amounts = amounts_of transactions
               in case (if amounts \<noteq> [] then py_max amounts else Inr 0) of
                    Inl e \<Rightarrow> Inl e
                  | Inr max_amount \<Rightarrow>
                      if max_amount > 10000 then Inr (base_score + 10 / 100)
                      else if max_amount > 5000 then Inr (base_score + 3 / 100)
                      else Inr base_score)
         else Inr base_score)"

definition exact_base_score ::
  "datetime \<Rightarrow> customer_profile \<Rightarrow> search_result list \<Rightarrow> py_exception + rat" where
  "exact_base_score now p search_results =
     (case exact_tenure_factor now p (exact_credit_factor p (exact_income_factor p (5 / 10))) of
        Inl e \<Rightarrow> Inl e
      | Inr b \<Rightarrow> exact_transaction_factor p (exact_product_factor p b))"

definition determine_risk_tier :: "rat \<Rightarrow> string" where
  "determine_risk_tier risk_score =
     (if risk_score < 25 / 100 then ''low''
      else if risk_score < 50 / 100 then ''medium-low''
      else if risk_score < 65 / 100 then ''medium''
      else if risk_score < 80 / 100 then ''high''
      else ''critical'')"

section \<open>Text formatting\<close>

definition nl :: string where
  "nl = [CHR 0x0A]"

definition digit_char :: "nat \<Rightarrow> char" where
  "digit_char n = ''0123456789'' ! n"

fun str_nat :: "nat \<Rightarrow> string" where
  "str_nat n = (if n < 10 then [digit_char n] else str_nat (n div 10) @ [digit_char (n mod 10)])"

definition str_int :: "int \<Rightarrow> string" where
  "str_int i = (if i < 0 then CHR ''-'' # str_nat (nat (- i)) else str_nat (nat i))"

text \<open>The \<^verbatim>\<open>,\<close> option of a format: a comma before every group of three digits.\<close>

fun group3 :: "string \<Rightarrow> string" where
  "group3 (a # b # c # d # rest) = a # b # c # CHR '','' # group3 (d # rest)"
| "group3 ds = ds"

definition group_thousands :: "string \<Rightarrow> string" where
  "group_thousands ds = rev (group3 (rev ds))"

definition zero_pad :: "nat \<Rightarrow> string \<Rightarrow> string" where
  "zero_pad w ds = replicate (w - length ds) (CHR ''0'') @ ds"

text \<open>
  \<^verbatim>\<open>f"{x:,.2f}"\<close> is \<open>format_fixed True 2 x\<close> and \<^verbatim>\<open>f"{x:.3f}"\<close> is
  \<open>format_fixed False 3 x\<close>: the number rounded to that many places, ties to even.
\<close>

definition format_fixed :: "bool \<Rightarrow> nat \<Rightarrow> rat \<Rightarrow> string" where
  "format_fixed grouping places x =
     (let r = nat (round_half_even (\<bar>x\<bar> * 10 ^ places));
          whole = str_nat (r div 10 ^ places);
          frac = zero_pad places (str_nat (r mod 10 ^ places))
      in (if x < 0 then [CHR ''-''] else [])
         @ (if grouping then group_thousands whole else whole) @ [CHR ''.''] @ frac)"

text \<open>\<^verbatim>\<open>sep.join(xs)\<close>\<close>

fun py_join :: "string \<Rightarrow> string list \<Rightarrow> string" where
  "py_join sep [] = []"
| "py_join sep [x] = x"
| "py_join sep (x # y # ys) = x @ sep @ py_join sep (y # ys)"

text \<open>
  The elements of a Python set built from a list. The order in which a set of strings is
  iterated is not fixed by the program; the model lists each element once, in the order of
  first insertion.
\<close>

definition set_elements :: "'a list \<Rightarrow> 'a list" where
  "set_elements xs = fold (\<lambda>x acc. if x \<in> set acc then acc else acc @ [x]) xs []"

section \<open>Findings and recommendations\<close>

text \<open>
  \<^verbatim>\<open>_generate_enhanced_findings\<close>. The contribution mapping is a dictionary from agent
  names to texts, kept as a list of pairs in insertion order.
\<close>

definition income_findings :: "customer_profile \<Rightarrow> string list \<Rightarrow> string list" where
  "income_findings p findings =
     (if income p \<ge> 75000
      then findings @ [''Customer qualifies for Tier A+ or A lending products (income: $''
                         @ format_fixed True 2 (income p) @ '')'']
      else if income p \<ge> 50000
      then findings @ [''Customer qualifies for Tier B lending products (income: $''
                         @ format_fixed True 2 (income p) @ '')'']
      else if income p \<ge> 30000
      then findings @ [''Customer qualifies for Tier C lending products (income: $''
                         @ format_fixed True 2 (income p) @ '')'']
      else findings @ [''Customer income ($'' @ format_fixed True 2 (income p)
                         @ '') may limit product eligibility''])"

definition credit_findings :: "customer_profile \<Rightarrow> string list \<Rightarrow> string list" where
  "credit_findings p findings =
     (if credit_score p \<ge> 750
      then findings @ [''Excellent credit score ('' @ str_int (credit_score p)
                         @ '') - eligible for best rates (3.5% APR)'']
      else if credit_score p \<ge> 700
      then findings @ [''Good credit score ('' @ str_int (credit_score p)
                         @ '') - eligible for competitive rates (4.5% APR)'']
      else if credit_score p \<ge> 650
      then findings @ [''Fair credit score ('' @ str_int (credit_score p)
                         @ '') - standard rates apply (6.0% APR)'']
      else if credit_score p > 0
      then findings @ [''Credit score ('' @ str_int (credit_score p)
                         @ '') requires case-by-case assessment'']
      else findings)"

definition product_findings :: "customer_profile \<Rightarrow> string list \<Rightarrow> string list" where
  "product_findings p findings =
     (let products = banking_products p
      in if length products \<ge> 4
         then findings @ [''High product engagement ('' @ str_nat (length products)
                            @ '' products) indicates strong customer relationship'']
         else if length products \<le> 1
         then findings @ [''Low product engagement ('' @ str_nat (length products)
                            @ '' product) - cross-sell opportunity identified'']
         else findings)"

definition transaction_findings ::
  "customer_profile \<Rightarrow> string list \<Rightarrow> py_exception + string list" where
  "transaction_findings p findings =
     (if recent_transactions p \<noteq> []
      then (let amounts = amounts_of (recent_transactions p)
            in case py_min amounts of
                 Inl e \<Rightarrow> Inl e
               | Inr lo \<Rightarrow>
                   (case py_max amounts of
                      Inl e \<Rightarrow> Inl e
                    | Inr hi \<Rightarrow>
                        Inr (findings @ [''Recent transaction activity: ''
                               @ str_nat (length amounts) @ '' transactions, range $''
                               @ format_fixed True 2 lo @ ''-$'' @ format_fixed True 2 hi])))
      else Inr findings)"

definition policy_findings :: "search_result list \<Rightarrow> string list \<Rightarrow> string list" where
  "policy_findings search_results findings =
     (if search_results \<noteq> []
      then (let collections =
                  set_elements (map (\<lambda>r. case collection r of None \<Rightarrow> [] | Some c \<Rightarrow> c)
                                    (take 5 search_results))
            in findings @ [''Relevant policy areas identified: '' @ py_join '', '' collections])
      else findings)"

definition generate_enhanced_findings ::
  "customer_profile \<Rightarrow> search_result list \<Rightarrow> (string \<times> string) list
     \<Rightarrow> py_exception + string list" where
  "generate_enhanced_findings p search_results agent_contributions =
     (let findings = [''Customer '' @ customer_id p @ '' analysis completed with ''
                        @ str_nat (length agent_contributions) @ '' agent contributions'']
      in case transaction_findings p
                (product_findings p (credit_findings p (income_findings p findings))) of
           Inl e \<Rightarrow> Inl e
         | Inr findings' \<Rightarrow> Inr (policy_findings search_results findings'))"

text \<open>
  \<^verbatim>\<open>_generate_enhanced_recommendations\<close>: the rules first, then the advisory
  recommendation when the rules gave fewer than two.
\<close>

definition risk_recommendations :: "rat \<Rightarrow> string list" where
  "risk_recommendations risk_score =
     (let risk_tier = determine_risk_tier risk_score
      in if risk_tier = ''high'' \<or> risk_tier = ''critical''
         then [''Implement enhanced monitoring with quarterly risk reviews'',
               ''Consider requiring additional documentation for high-value transactions'']
         else if risk_tier = ''medium''
         then [''Maintain standard monitoring with semi-annual reviews'']
         else [''Continue standard monitoring with annual reviews''])"

definition rule_based_recommendations :: "customer_profile \<Rightarrow> rat \<Rightarrow> string list" where
  "rule_based_recommendations p risk_score =
     (let products = set (banking_products p)
      in risk_recommendations risk_score
         @ (if ''investment'' \<notin> products \<and> income p \<ge> 50000
            then [''Recommend investment portfolio services based on income level''] else [])
         @ (if ''savings'' \<notin> products
            then [''Recommend high-yield savings account to improve financial health''] else [])
         @ (if ''credit_card'' \<notin> products \<and> credit_score p \<ge> 650
            then [''Eligible for rewards credit card based on credit profile''] else [])
         @ (if ''mortgage'' \<notin> products \<and> income p \<ge> 75000 \<and> credit_score p \<ge> 700
            then [''Pre-qualify for mortgage products at competitive rates''] else [])
         @ (if account_type p = ''basic'' \<and> income p \<ge> 50000
            then [''Upgrade to premium account tier based on income qualification''] else [])
         @ (if length (banking_products p) \<le> 1
            then [''Initiate cross-sell engagement program to deepen customer relationship'']
            else [])
         @ (if credit_score p < 700 \<and> credit_score p > 0
            then [''Offer credit-building program to improve eligibility for premium products'']
            else []))"

definition advisory_recommendation :: string where
  "advisory_recommendation =
     ''Schedule periodic financial health review to identify emerging opportunities''"

definition generate_enhanced_recommendations :: "customer_profile \<Rightarrow> rat \<Rightarrow> string list" where
  "generate_enhanced_recommendations p risk_score =
     (let recommendations = rule_based_recommendations p risk_score
      in if length recommendations < 2 then recommendations @ [advisory_recommendation]
         else recommendations)"

section \<open>The context handed to the agents\<close>

text \<open>
  \<^verbatim>\<open>_prepare_enhanced_context\<close>. The text of
  \<^verbatim>\<open>create_semantic_kernel_context(self.banking_policies)\<close> comes from a module outside
  this file; it is the argument \<open>policy_framework\<close>.
\<close>

definition customer_context :: "customer_profile \<Rightarrow> string" where
  "customer_context p =
     nl @ ''CUSTOMER PROFILE:'' @ nl
     @ ''- Customer ID: '' @ customer_id p @ nl
     @ ''- Annual Income: $'' @ format_fixed True 2 (income p) @ nl
     @ ''- Credit Score: '' @ str_int (credit_score p) @ nl
     @ ''- Account Type: '' @ account_type p @ nl
     @ ''- Customer Since: '' @ customer_since p @ nl
     @ ''- Risk Tier: '' @ risk_tier p @ nl
     @ ''- Banking Products: ''
     @ (if banking_products p \<noteq> [] then py_join '', '' (banking_products p) else ''None'') @ nl
     @ ''- Last Review Date: '' @ last_review_date p @ nl"

definition tx_line :: "transaction \<Rightarrow> string" where
  "tx_line t =
     ''- $'' @ format_fixed True 2 (case amount t of None \<Rightarrow> 0 | Some a \<Rightarrow> a)
     @ '' - '' @ (case description t of None \<Rightarrow> ''N/A'' | Some d \<Rightarrow> d)
     @ '' ('' @ (case ts t of None \<Rightarrow> ''N/A'' | Some s \<Rightarrow> s) @ '')'' @ nl"

text \<open>\<^verbatim>\<open>for tx in customer_profile.recent_transactions[:10]: tx_context += ...\<close>\<close>

definition tx_context :: "customer_profile \<Rightarrow> string" where
  "tx_context p =
     fold (\<lambda>t acc. acc @ tx_line t) (take 10 (recent_transactions p))
       (nl @ ''RECENT TRANSACTIONS:'' @ nl)"

text \<open>\<^verbatim>\<open>result.get("document", "")\<close>\<close>

definition document_text :: "search_result \<Rightarrow> string" where
  "document_text r = (case document r of None \<Rightarrow> [] | Some d \<Rightarrow> d)"

text \<open>The text of one excerpt as it is included: \<^verbatim>\<open>result.get("document", "")[:500]\<close>.\<close>

definition excerpt_text :: "search_result \<Rightarrow> string" where
  "excerpt_text r = take 500 (document_text r)"

definition policy_entry :: "nat \<Rightarrow> search_result \<Rightarrow> string" where
  "policy_entry i r =
     nl @ ''--- Policy Reference '' @ str_nat i
     @ '' (Source: '' @ (case filename r of None \<Rightarrow> ''Unknown'' | Some f \<Rightarrow> f) @ '', ''
     @ ''Collection: '' @ (case collection r of None \<Rightarrow> ''Unknown'' | Some c \<Rightarrow> c) @ '', ''
     @ ''Relevance: ''
     @ format_fixed False 3
         (case final_score r of
            Some s \<Rightarrow> s
          | None \<Rightarrow> (case relevance_score r of None \<Rightarrow> 0 | Some s \<Rightarrow> s))
     @ '') ---'' @ nl
     @ excerpt_text r @ nl"

text \<open>\<^verbatim>\<open>for i, result in enumerate(search_results[:6], 1): policy_context += ...\<close>\<close>

definition policy_context :: "search_result list \<Rightarrow> string" where
  "policy_context search_results =
     fold (\<lambda>(i, r) acc. acc @ policy_entry i r) (enumerate 1 (take 6 search_results))
       (nl @ ''RELEVANT BANKING POLICIES:'' @ nl)"

definition policy_summary :: "string \<Rightarrow> string" where
  "policy_summary policy_framework = nl @ ''POLICY FRAMEWORK SUMMARY:'' @ nl @ policy_framework"

definition prepare_enhanced_context ::
  "string \<Rightarrow> customer_profile \<Rightarrow> search_result list \<Rightarrow> string \<Rightarrow> string" where
  "prepare_enhanced_context policy_framework p search_results customer_query =
     nl @ ''BANKING ANALYSIS REQUEST: '' @ customer_query @ nl
     @ nl @ customer_context p @ nl
     @ tx_context p @ nl
     @ policy_context search_results @ nl
     @ policy_summary policy_framework @ nl
     @ nl @ ''ANALYSIS SCOPE:'' @ nl
     @ ''Provide a comprehensive analysis covering fraud detection, loan eligibility,'' @ nl
     @ ''customer service optimization, enterprise risk assessment, and strategic recommendations.''
     @ nl"

section \<open>One run of the analysis\<close>

record processing_metrics =
  total_processing_time_seconds :: rat
  agents_used :: nat
  policies_referenced :: nat
  search_results_analyzed :: nat
  metrics_risk_score :: rat

record report =
  rep_report_id :: string
  rep_customer_id :: string
  rep_query :: string
  rep_summary :: string
  rep_key_findings :: "string list"
  rep_risk_assessment :: string
  rep_risk_score :: rat
  rep_recommendations :: "string list"
  rep_actions_taken :: "string list"
  rep_policy_references :: "string list"
  rep_agent_contributions :: "(string \<times> string) list"
  rep_processing_metrics :: processing_metrics
  rep_generated_by :: string
  rep_generated_at :: string

text \<open>
  Modelled from the spec: the class \<^verbatim>\<open>SharedState\<close> (module \<^verbatim>\<open>shared_state\<close>) is not
  among the sources. The spec describes an append-only interaction log whose records hold
  the customer id, the report id or the failure reason, the risk score if any, and a
  timestamp; \<^verbatim>\<open>update_interaction\<close> and \<^verbatim>\<open>record_failure\<close> append one record each.
\<close>

datatype outcome = ReportId string | FailureReason string

record interaction_record =
  ir_customer_id :: string
  ir_outcome :: outcome
  ir_risk_score :: "rat option"
  ir_timestamp :: string

definition update_interaction ::
  "interaction_record list \<Rightarrow> string \<Rightarrow> string \<Rightarrow> rat \<Rightarrow> string \<Rightarrow> interaction_record list" where
  "update_interaction entries cid rid score stamp =
     entries @ [\<lparr>ir_customer_id = cid, ir_outcome = ReportId rid, ir_risk_score = Some score,
              ir_timestamp = stamp\<rparr>]"

definition record_failure ::
  "interaction_record list \<Rightarrow> string \<Rightarrow> string \<Rightarrow> string \<Rightarrow> interaction_record list" where
  "record_failure entries cid reason stamp =
     entries @ [\<lparr>ir_customer_id = cid, ir_outcome = FailureReason reason, ir_risk_score = None,
              ir_timestamp = stamp\<rparr>]"

text \<open>The mutable fields of the orchestration object that a run reads and writes.\<close>

record system_state =
  total_requests :: nat
  successful_analyses :: nat
  customer_profiles :: "(string \<times> customer_profile) list"
  interaction_log :: "interaction_record list"

text \<open>
  What a run obtains from outside the program: the database, the document and search
  stores, the agent orchestration of the library, the clock and the random identifier.
  \<open>load_enhanced_documents\<close> is the exception, if any, with which the loading of the
  documents into the search store ends; \<open>stop_when_idle\<close> likewise for the runtime.
  The orchestration receives the agent names and the task text; it answers with the
  messages it passed to the callback, in order, and with the final output or the exception
  that \<^verbatim>\<open>invoke\<close> or \<^verbatim>\<open>wait_for(..., timeout=180.0)\<close> raised.
\<close>

record world =
  has_connection :: bool
  fetch_income :: "string \<Rightarrow> rat option"
  fetch_transactions :: "string \<Rightarrow> transaction list"
  load_enhanced_documents :: "py_exception option"
  hybrid_search :: "string \<Rightarrow> py_exception + search_result list"
  policy_framework_text :: string
  orchestrate :: "string list \<Rightarrow> string \<Rightarrow> (string \<times> string) list \<times> (py_exception + string)"
  stop_when_idle :: "py_exception option"
  uuid_hex :: string
  clock_now :: datetime
  now_isoformat :: string
  elapsed_seconds :: rat
  class_generated_at :: string

text \<open>\<^verbatim>\<open>_load_customer_profiles\<close>: the sample profiles, refreshed from the database.\<close>

definition load_profile :: "world \<Rightarrow> string \<times> customer_profile \<Rightarrow> string \<times> customer_profile" where
  "load_profile w entry =
     (case entry of (cid, profile) \<Rightarrow>
        (let transactions = fetch_transactions w cid
         in case fetch_income w cid of
              None \<Rightarrow> (cid, profile)
            | Some inc \<Rightarrow>
                (cid, profile\<lparr>income := inc,
                               recent_transactions :=
                                 (if transactions \<noteq> [] then transactions
                                  else recent_transactions profile)\<rparr>)))"

definition load_customer_profiles :: "world \<Rightarrow> (string \<times> customer_profile) list" where
  "load_customer_profiles w =
     (if has_connection w then map (load_profile w) default_profiles else default_profiles)"

text \<open>
  \<^verbatim>\<open>create_enhanced_agents\<close>: the names of the six agents, in order. Their instruction
  texts are constants handed to the generation service.
\<close>

definition create_enhanced_agents :: "string list" where
  "create_enhanced_agents =
     [''Enhanced_Data_Gatherer'', ''Enhanced_Fraud_Analyst'', ''Enhanced_Loan_Analyst'',
      ''Enhanced_Support_Specialist'', ''Enhanced_Risk_Analyst'',
      ''Enhanced_Synthesis_Coordinator'']"

definition orchestration_task :: "string \<Rightarrow> string" where
  "orchestration_task banking_context =
     nl @ ''ENHANCED BANKING CUSTOMER ANALYSIS REQUEST'' @ nl
     @ ''============================================'' @ nl
     @ nl @ banking_context @ nl
     @ nl @ ''ANALYSIS INSTRUCTIONS:'' @ nl
     @ ''Each agent should perform their specialized analysis in sequence:'' @ nl
     @ ''1. Data Gatherer: Analyze the customer profile, calculate financial metrics, and identify applicable policies.'' @ nl
     @ ''2. Fraud Analyst: Review transaction patterns for suspicious activity and assess fraud risk.'' @ nl
     @ ''3. Loan Analyst: Evaluate loan eligibility, credit risk, and recommend suitable products.'' @ nl
     @ ''4. Support Specialist: Assess customer service needs, retention risk, and engagement opportunities.'' @ nl
     @ ''5. Risk Analyst: Perform enterprise risk assessment across all risk categories and verify compliance.'' @ nl
     @ ''6. Synthesis Coordinator: Integrate all findings into an executive report with prioritized recommendations.'' @ nl
     @ nl
     @ ''Provide specific, actionable insights based on the customer data and banking policies provided.'' @ nl"

text \<open>\<^verbatim>\<open>agent_contributions[message.name] = message.content\<close>, once for every message.\<close>

definition enhanced_agent_callback ::
  "string \<times> string \<Rightarrow> (string \<times> string) list \<Rightarrow> (string \<times> string) list" where
  "enhanced_agent_callback message agent_contributions =
     AList.update (fst message) (snd message) agent_contributions"

text \<open>
  \<^verbatim>\<open>list({r.get("filename", "Unknown") for r in search_results if r.get("filename")})\<close>
\<close>

definition policy_refs_of :: "search_result list \<Rightarrow> string list" where
  "policy_refs_of search_results =
     set_elements
       (map (\<lambda>r. case filename r of None \<Rightarrow> ''Unknown'' | Some f \<Rightarrow> f)
            (filter (\<lambda>r. case filename r of None \<Rightarrow> False | Some f \<Rightarrow> f \<noteq> [])
                    search_results))"

text \<open>The body of the \<^verbatim>\<open>try\<close> block: the report, or the exception that leaves the block.\<close>

definition try_block ::
  "world \<Rightarrow> string \<Rightarrow> string \<Rightarrow> customer_profile \<Rightarrow> search_result list \<Rightarrow> string
     \<Rightarrow> py_exception + report" where
  "try_block w cid customer_query p search_results banking_context =
     (let agents = create_enhanced_agents;
          (messages, orchestration_result) = orchestrate w agents (orchestration_task banking_context);
          agent_contributions = fold enhanced_agent_callback messages []
      in case orchestration_result of
           Inl e \<Rightarrow> Inl e
         | Inr final_output \<Rightarrow>
             (case calculate_enhanced_risk_score (clock_now w) p search_results of
                Inl e \<Rightarrow> Inl e
              | Inr risk_score \<Rightarrow>
                  (let risk_assessment = determine_risk_tier risk_score;
                       policy_refs = policy_refs_of search_results
                   in case generate_enhanced_findings p search_results agent_contributions of
                        Inl e \<Rightarrow> Inl e
                      | Inr findings \<Rightarrow>
                          Inr \<lparr>rep_report_id = ''enhanced_'' @ take 8 (uuid_hex w),
                               rep_customer_id = cid,
                               rep_query = customer_query,
                               rep_summary = final_output,
                               rep_key_findings = findings,
                               rep_risk_assessment = risk_assessment,
                               rep_risk_score = risk_score,
                               rep_recommendations =
                                 generate_enhanced_recommendations p risk_score,
                               rep_actions_taken =
                                 [''Enhanced multi-agent sequential analysis completed'',
                                  ''Comprehensive policy compliance verification performed'',
                                  ''Enterprise risk assessment conducted'',
                                  ''Analyzed '' @ str_nat (length search_results)
                                    @ '' relevant policy documents'',
                                  str_nat (length agent_contributions)
                                    @ '' specialized agents contributed to analysis''],
                               rep_policy_references = policy_refs,
                               rep_agent_contributions = agent_contributions,
                               rep_processing_metrics =
                                 \<lparr>total_processing_time_seconds = py_round (elapsed_seconds w) 2,
                                  agents_used = length agents,
                                  policies_referenced = length policy_refs,
                                  search_results_analyzed = length search_results,
                                  metrics_risk_score = risk_score\<rparr>,
                               rep_generated_by = ''EnhancedBankingSequentialOrchestration'',
                               rep_generated_at = class_generated_at w\<rparr>)))"

text \<open>
  The first statements of \<^verbatim>\<open>run_enhanced_analysis\<close>: the request is counted and the
  profiles are loaded when the dictionary is still empty.
\<close>

definition begin_run :: "world \<Rightarrow> system_state \<Rightarrow> system_state" where
  "begin_run w st =
     (let st1 = st\<lparr>total_requests := total_requests st + 1\<rparr>
      in if customer_profiles st1 = []
         then st1\<lparr>customer_profiles := load_customer_profiles w\<rparr> else st1)"

text \<open>\<^verbatim>\<open>self.customer_profiles.get(customer_id, CustomerProfile(customer_id=customer_id))\<close>\<close>

definition lookup_profile :: "system_state \<Rightarrow> string \<Rightarrow> customer_profile" where
  "lookup_profile st cid =
     (case map_of (customer_profiles st) cid of None \<Rightarrow> CustomerProfile cid | Some p \<Rightarrow> p)"

text \<open>
  \<^verbatim>\<open>run_enhanced_analysis\<close>: the value returned or the exception raised, and the state
  after the run. An exception before the \<^verbatim>\<open>try\<close> block leaves the function at once; an
  exception inside it is recorded and raised again; an exception of the \<^verbatim>\<open>finally\<close>
  clause replaces the pending result.
\<close>

definition run_enhanced_analysis ::
  "world \<Rightarrow> system_state \<Rightarrow> string \<Rightarrow> string \<Rightarrow> (py_exception + report) \<times> system_state" where
  "run_enhanced_analysis w st cid customer_query =
     (let st2 = begin_run w st
      in case load_enhanced_documents w of
           Some e \<Rightarrow> (Inl e, st2)
         | None \<Rightarrow>
             (let customer_profile = lookup_profile st2 cid
              in case hybrid_search w customer_query of
                   Inl e \<Rightarrow> (Inl e, st2)
                 | Inr search_results \<Rightarrow>
                     (let banking_context =
                            prepare_enhanced_context (policy_framework_text w) customer_profile
                              search_results customer_query;
                          (result, st3) =
                            (case try_block w cid customer_query customer_profile search_results
                                    banking_context of
                               Inr rep \<Rightarrow>
                                 (Inr rep,
                                  st2\<lparr>successful_analyses := successful_analyses st2 + 1,
                                      interaction_log :=
                                        update_interaction (interaction_log st2) cid
                                          (rep_report_id rep) (rep_risk_score rep)
                                          (now_isoformat w)\<rparr>)
                             | Inl e \<Rightarrow>
                                 (Inl e,
                                  st2\<lparr>interaction_log :=
                                        record_failure (interaction_log st2) cid
                                          (str_exception e) (now_isoformat w)\<rparr>))
                      in case stop_when_idle w of
                           Some e \<Rightarrow> (Inl e, st3)
                         | None \<Rightarrow> (result, st3))))"

section \<open>Sample inputs\<close>

text \<open>A reference time, 3 November 2026 at 14:30, and a world in which the agents fail.\<close>

definition sample_now :: datetime where
  "sample_now = \<lparr>dt_ordinal = 739923, dt_micros = 52200000000\<rparr>"

definition sample_excerpt :: search_result where
  "sample_excerpt =
     \<lparr>filename = Some ''fraud_policy.md'', collection = Some ''fraud_detection'',
      final_score = Some (87654 / 100000), relevance_score = None,
      document = Some (replicate 600 (CHR ''a''))\<rparr>"

definition failing_world :: world where
  "failing_world =
     \<lparr>has_connection = False, fetch_income = (\<lambda>cid. None), fetch_transactions = (\<lambda>cid. []),
      load_enhanced_documents = None, hybrid_search = (\<lambda>q. Inr [sample_excerpt]),
      policy_framework_text = ''Fraud: review transactions above the limit'',
      orchestrate =
        (\<lambda>agents task. ([(''Enhanced_Data_Gatherer'', ''profile summary'')],
                         Inl (OtherException ''service unavailable''))),
      stop_when_idle = None, uuid_hex = ''0123456789abcdef0123456789abcdef'',
      clock_now = sample_now, now_isoformat = ''2026-11-03T14:30:00'',
      elapsed_seconds = 12345 / 1000, class_generated_at = ''2026-11-03T14:00:00''\<rparr>"

definition initial_state :: system_state where
  "initial_state =
     \<lparr>total_requests = 0, successful_analyses = 0, customer_profiles = [],
      interaction_log = []\<rparr>"

section \<open>Rounding\<close>

lemma round_half_even_bounds:
  "\<lfloor>y\<rfloor> \<le> round_half_even y \<and> round_half_even y \<le> \<lfloor>y\<rfloor> + 1"
  by (simp add: round_half_even_def Let_def)

lemma round_half_even_of_int: "round_half_even (of_int k) = k"
  by (simp add: round_half_even_def Let_def)

lemma round_half_even_mono:
  assumes "x \<le> y"
  shows "round_half_even x \<le> round_half_even y"
proof (cases "\<lfloor>x\<rfloor> = \<lfloor>y\<rfloor>")
  case True
  with assms show ?thesis
    by (auto simp: round_half_even_def Let_def)
next
  case False
  from assms have "\<lfloor>x\<rfloor> \<le> \<lfloor>y\<rfloor>" by (rule floor_mono)
  with False have "\<lfloor>x\<rfloor> + 1 \<le> \<lfloor>y\<rfloor>" by simp
  with round_half_even_bounds [of x] round_half_even_bounds [of y] show ?thesis
    by linarith
qed

lemma py_round_thousandth: "py_round (of_int k / 1000) 3 = of_int k / 1000"
proof -
  have "(of_int k / 1000 :: rat) * 10 ^ 3 = of_int k" by simp
  then show ?thesis
    unfolding py_round_def by (simp only: round_half_even_of_int) simp
qed

section \<open>The steps of the score\<close>

lemma exact_income_factor_shift: "exact_income_factor p (b + d) = exact_income_factor p b + d"
  by (simp add: exact_income_factor_def)

lemma exact_credit_factor_shift: "exact_credit_factor p (b + d) = exact_credit_factor p b + d"
  by (simp add: exact_credit_factor_def)

lemma exact_product_factor_shift: "exact_product_factor p (b + d) = exact_product_factor p b + d"
  by (simp add: exact_product_factor_def Let_def)

lemma strptime_ymd_raises: "strptime_ymd s = Inl e \<Longrightarrow> \<exists>m. e = ValueError m"
  by (auto simp: strptime_ymd_def split: option.splits if_splits)

lemma exact_tenure_factor_cases:
  "exact_tenure_factor now p b = Inr (b - 10 / 100) \<or> exact_tenure_factor now p b = Inr (b - 5 / 100)
   \<or> exact_tenure_factor now p b = Inr (b + 8 / 100) \<or> exact_tenure_factor now p b = Inr b"
proof (cases "strptime_ymd (customer_since p)")
  case (Inl e)
  with strptime_ymd_raises [OF Inl] show ?thesis
    by (auto simp: exact_tenure_factor_def)
next
  case (Inr since)
  then show ?thesis
    by (simp add: exact_tenure_factor_def Let_def)
qed

lemma amounts_of_Nil: "amounts_of txs = [] \<longleftrightarrow> txs = []"
  by (simp add: amounts_of_def)

lemma exact_transaction_factor_cases:
  "exact_transaction_factor p b = Inr (b + 10 / 100) \<or> exact_transaction_factor p b = Inr (b + 3 / 100)
   \<or> exact_transaction_factor p b = Inr b"
  by (cases "recent_transactions p") (simp_all add: exact_transaction_factor_def Let_def amounts_of_def)

lemma exact_transaction_factor_shift:
  "exact_transaction_factor p b = Inr v \<Longrightarrow> exact_transaction_factor p (b + d) = Inr (v + d)"
  by (cases "recent_transactions p")
     (auto simp: exact_transaction_factor_def Let_def amounts_of_def split: if_splits)

lemma exact_income_factor_bounds:
  "b - 15 / 100 \<le> exact_income_factor p b \<and> exact_income_factor p b \<le> b + 10 / 100"
  by (simp add: exact_income_factor_def)

lemma exact_credit_factor_bounds:
  "b - 15 / 100 \<le> exact_credit_factor p b \<and> exact_credit_factor p b \<le> b + 15 / 100"
  by (simp add: exact_credit_factor_def)

lemma exact_product_factor_bounds:
  "b - 8 / 100 \<le> exact_product_factor p b \<and> exact_product_factor p b \<le> b + 5 / 100"
  by (simp add: exact_product_factor_def Let_def)

lemma exact_tenure_factor_bounds:
  "\<exists>v. exact_tenure_factor now p b = Inr v \<and> b - 10 / 100 \<le> v \<and> v \<le> b + 8 / 100"
  using exact_tenure_factor_cases [of now p b] by auto

lemma exact_transaction_factor_bounds:
  "\<exists>v. exact_transaction_factor p b = Inr v \<and> b \<le> v \<and> v \<le> b + 10 / 100"
  using exact_transaction_factor_cases [of p b] by auto

lemma exact_base_score_bounds:
  "\<exists>b. exact_base_score now p sr = Inr b \<and> 2 / 100 \<le> b \<and> b \<le> 98 / 100"
proof -
  define b1 where "b1 = exact_income_factor p (5 / 10)"
  define b2 where "b2 = exact_credit_factor p b1"
  obtain b3 where t: "exact_tenure_factor now p b2 = Inr b3" "b2 - 10 / 100 \<le> b3" "b3 \<le> b2 + 8 / 100"
    using exact_tenure_factor_bounds by blast
  define b4 where "b4 = exact_product_factor p b3"
  obtain b5 where x: "exact_transaction_factor p b4 = Inr b5" "b4 \<le> b5" "b5 \<le> b4 + 10 / 100"
    using exact_transaction_factor_bounds by blast
  have acc: "exact_base_score now p sr = Inr b5"
    using t(1) x(1) by (simp add: exact_base_score_def b1_def b2_def b4_def)
  have "5 / 10 - 15 / 100 \<le> b1" "b1 \<le> 5 / 10 + 10 / 100"
    using exact_income_factor_bounds [of "5 / 10" p] by (simp_all add: b1_def)
  moreover have "b1 - 15 / 100 \<le> b2" "b2 \<le> b1 + 15 / 100"
    using exact_credit_factor_bounds [of b1 p] by (simp_all add: b2_def)
  moreover have "b3 - 8 / 100 \<le> b4" "b4 \<le> b3 + 5 / 100"
    using exact_product_factor_bounds [of b3 p] by (simp_all add: b4_def)
  ultimately have "2 / 100 \<le> b5 \<and> b5 \<le> 98 / 100"
    using t(2,3) x(2,3) by linarith
  with acc show ?thesis by blast
qed

text \<open>Every step adds a whole number of hundredths.\<close>

lemma exact_income_factor_hundredths: "\<exists>k::int. exact_income_factor p b = b + of_int k / 100"
proof -
  have "exact_income_factor p b = b + of_int (- 15) / 100 \<or> exact_income_factor p b = b + of_int (- 10) / 100
     \<or> exact_income_factor p b = b + of_int (- 5) / 100 \<or> exact_income_factor p b = b + of_int 10 / 100
     \<or> exact_income_factor p b = b + of_int 0 / 100"
    by (simp add: exact_income_factor_def)
  then show ?thesis by blast
qed

lemma exact_credit_factor_hundredths: "\<exists>k::int. exact_credit_factor p b = b + of_int k / 100"
proof -
  have "exact_credit_factor p b = b + of_int (- 15) / 100 \<or> exact_credit_factor p b = b + of_int (- 8) / 100
     \<or> exact_credit_factor p b = b + of_int 5 / 100 \<or> exact_credit_factor p b = b + of_int 15 / 100
     \<or> exact_credit_factor p b = b + of_int 0 / 100"
    by (simp add: exact_credit_factor_def)
  then show ?thesis by blast
qed

lemma exact_product_factor_hundredths: "\<exists>k::int. exact_product_factor p b = b + of_int k / 100"
proof -
  have "exact_product_factor p b = b + of_int (- 8) / 100 \<or> exact_product_factor p b = b + of_int (- 3) / 100
     \<or> exact_product_factor p b = b + of_int 5 / 100 \<or> exact_product_factor p b = b + of_int 0 / 100"
    by (simp add: exact_product_factor_def Let_def)
  then show ?thesis by blast
qed

lemma exact_tenure_factor_hundredths: "\<exists>k::int. exact_tenure_factor now p b = Inr (b + of_int k / 100)"
proof -
  have "exact_tenure_factor now p b = Inr (b + of_int (- 10) / 100)
     \<or> exact_tenure_factor now p b = Inr (b + of_int (- 5) / 100)
     \<or> exact_tenure_factor now p b = Inr (b + of_int 8 / 100)
     \<or> exact_tenure_factor now p b = Inr (b + of_int 0 / 100)"
    using exact_tenure_factor_cases [of now p b] by simp
  then show ?thesis by blast
qed

lemma exact_transaction_factor_hundredths: "\<exists>k::int. exact_transaction_factor p b = Inr (b + of_int k / 100)"
proof -
  have "exact_transaction_factor p b = Inr (b + of_int 10 / 100)
     \<or> exact_transaction_factor p b = Inr (b + of_int 3 / 100)
     \<or> exact_transaction_factor p b = Inr (b + of_int 0 / 100)"
    using exact_transaction_factor_cases [of p b] by simp
  then show ?thesis by blast
qed

lemma exact_base_score_hundredths:
  "\<exists>k::int. exact_base_score now p sr = Inr (of_int k / 100)"
proof -
  obtain k1 where k1: "exact_income_factor p (5 / 10) = 5 / 10 + of_int k1 / 100"
    using exact_income_factor_hundredths by blast
  obtain k2 where k2:
    "exact_credit_factor p (5 / 10 + of_int k1 / 100) = 5 / 10 + of_int k1 / 100 + of_int k2 / 100"
    using exact_credit_factor_hundredths by blast
  obtain k3 where k3:
    "exact_tenure_factor now p (5 / 10 + of_int k1 / 100 + of_int k2 / 100)
       = Inr (5 / 10 + of_int k1 / 100 + of_int k2 / 100 + of_int k3 / 100)"
    using exact_tenure_factor_hundredths by blast
  obtain k4 where k4:
    "exact_product_factor p (5 / 10 + of_int k1 / 100 + of_int k2 / 100 + of_int k3 / 100)
       = 5 / 10 + of_int k1 / 100 + of_int k2 / 100 + of_int k3 / 100 + of_int k4 / 100"
    using exact_product_factor_hundredths by blast
  obtain k5 where k5:
    "exact_transaction_factor p
        (5 / 10 + of_int k1 / 100 + of_int k2 / 100 + of_int k3 / 100 + of_int k4 / 100)
       = Inr (5 / 10 + of_int k1 / 100 + of_int k2 / 100 + of_int k3 / 100 + of_int k4 / 100
              + of_int k5 / 100)"
    using exact_transaction_factor_hundredths by blast
  have "exact_base_score now p sr = Inr (of_int (50 + k1 + k2 + k3 + k4 + k5) / 100)"
    unfolding exact_base_score_def k1 k2 k3 using k4 k5
    by (simp add: add_divide_distrib)
  then show ?thesis by blast
qed

section \<open>The floats stay close to the decimals\<close>

lemma round_half_even_error: "\<bar>of_int (round_half_even y) - y\<bar> \<le> 1 / 2"
proof -
  have "of_int \<lfloor>y\<rfloor> \<le> y" "y < of_int \<lfloor>y\<rfloor> + 1" by linarith+
  then show ?thesis
    by (auto simp: round_half_even_def Let_def abs_le_iff)
qed

lemma round_half_even_near:
  assumes "\<bar>y - of_int k\<bar> < 1 / 2"
  shows "round_half_even y = k"
proof -
  have "\<bar>(of_int (round_half_even y) :: rat) - of_int k\<bar> < 1"
    using round_half_even_error [of y] assms by linarith
  then have "\<bar>(of_int (round_half_even y - k) :: rat)\<bar> < of_int 1" by simp
  then have "\<bar>round_half_even y - k\<bar> < 1"
    unfolding of_int_abs [symmetric] of_int_less_iff .
  then show ?thesis by linarith
qed

lemma binade_le: "x < 2 \<Longrightarrow> binade n x e \<le> e"
proof (induction n arbitrary: x e)
  case 0
  then show ?case by simp
next
  case (Suc n)
  show ?case
  proof (cases "x < 1")
    case True
    then have "x * 2 < 2" by simp
    from Suc.IH [OF this, of "e - 1"] True show ?thesis by simp
  next
    case False
    with Suc.prems show ?thesis by simp
  qed
qed

lemma float_eps_bounds: "0 < float_eps" "float_eps < 1 / 1000000"
  by (simp_all add: float_eps_def)

text \<open>Below 2 a float is a multiple of \<open>float_eps\<close> or finer, so rounding moves by at most half of it.\<close>

lemma binary64_error:
  assumes "\<bar>x\<bar> < 2"
  shows "\<bar>binary64 x - x\<bar> \<le> float_eps / 2"
proof (cases "x = 0")
  case True
  then show ?thesis by (simp add: binary64_def float_eps_def)
next
  case False
  define e where "e = binade 1100 \<bar>x\<bar> 0"
  define n where "n = nat (52 - e)"
  define ulp :: rat where "ulp = 1 / 2 ^ n"
  have e: "e \<le> 0" unfolding e_def using assms by (rule binade_le)
  then have n: "52 \<le> n" by (simp add: n_def)
  have b: "binary64 x = of_int (round_half_even (x / ulp)) * ulp"
    using False e by (simp add: binary64_def Let_def e_def [symmetric] n_def ulp_def)
  have pos: "0 < ulp" by (simp add: ulp_def)
  have "(2::rat) ^ 52 \<le> 2 ^ n" using n by (intro power_increasing) simp_all
  then have small: "ulp \<le> float_eps"
    unfolding ulp_def float_eps_def by (intro divide_left_mono) simp_all
  have "binary64 x - x = (of_int (round_half_even (x / ulp)) - x / ulp) * ulp"
    using pos by (simp add: b algebra_simps)
  then have "\<bar>binary64 x - x\<bar> = \<bar>of_int (round_half_even (x / ulp)) - x / ulp\<bar> * ulp"
    using pos by (simp add: abs_mult)
  also have "\<dots> \<le> (1 / 2) * ulp"
    using round_half_even_error [of "x / ulp"] pos by (intro mult_right_mono) simp_all
  also have "\<dots> \<le> (1 / 2) * float_eps"
    using small by (intro mult_left_mono) simp_all
  finally show ?thesis by simp
qed

lemma float_sub_error:
  assumes "\<bar>b\<bar> \<le> 1" "0 \<le> d" "d \<le> 1 / 2"
  shows "\<bar>float_sub b d - (b - d)\<bar> \<le> float_eps"
proof -
  have "\<bar>d\<bar> < 2" using assms(2,3) by linarith
  then have d: "\<bar>binary64 d - d\<bar> \<le> float_eps / 2" by (rule binary64_error)
  then have "\<bar>b - binary64 d\<bar> < 2" using assms float_eps_bounds by linarith
  then have "\<bar>binary64 (b - binary64 d) - (b - binary64 d)\<bar> \<le> float_eps / 2"
    by (rule binary64_error)
  with d show ?thesis unfolding float_sub_def by linarith
qed

lemma float_add_error:
  assumes "\<bar>b\<bar> \<le> 1" "0 \<le> d" "d \<le> 1 / 2"
  shows "\<bar>float_add b d - (b + d)\<bar> \<le> float_eps"
proof -
  have "\<bar>d\<bar> < 2" using assms(2,3) by linarith
  then have d: "\<bar>binary64 d - d\<bar> \<le> float_eps / 2" by (rule binary64_error)
  then have "\<bar>b + binary64 d\<bar> < 2" using assms float_eps_bounds by linarith
  then have "\<bar>binary64 (b + binary64 d) - (b + binary64 d)\<bar> \<le> float_eps / 2"
    by (rule binary64_error)
  with d show ?thesis unfolding float_add_def by linarith
qed

text \<open>
  Each step moves the float as the exact step moves the decimal, up to \<open>float_eps\<close>, and
  takes the same branch.
\<close>

lemma float_sub_step:
  assumes "\<bar>fb\<bar> \<le> 1" "0 \<le> d" "d \<le> 1 / 2"
  shows "\<bar>(float_sub fb d - fb) - ((b - d) - b)\<bar> \<le> float_eps"
  using float_sub_error [OF assms] by linarith

lemma float_add_step:
  assumes "\<bar>fb\<bar> \<le> 1" "0 \<le> d" "d \<le> 1 / 2"
  shows "\<bar>(float_add fb d - fb) - ((b + d) - b)\<bar> \<le> float_eps"
  using float_add_error [OF assms] by linarith

lemma no_step: "\<bar>(fb - fb) - (b - b)\<bar> \<le> float_eps"
  using float_eps_bounds by simp

lemma income_factor_error:
  assumes "\<bar>fb\<bar> \<le> 1"
  shows "\<bar>(income_factor p fb - fb) - (exact_income_factor p b - b)\<bar> \<le> float_eps"
  unfolding income_factor_def exact_income_factor_def
  by (auto simp only: if_P if_not_P split: if_splits
      intro!: float_sub_step float_add_step no_step assms)

lemma credit_factor_error:
  assumes "\<bar>fb\<bar> \<le> 1"
  shows "\<bar>(credit_factor p fb - fb) - (exact_credit_factor p b - b)\<bar> \<le> float_eps"
  unfolding credit_factor_def exact_credit_factor_def
  by (auto simp only: if_P if_not_P split: if_splits
      intro!: float_sub_step float_add_step no_step assms)

lemma product_factor_error:
  assumes "\<bar>fb\<bar> \<le> 1"
  shows "\<bar>(product_factor p fb - fb) - (exact_product_factor p b - b)\<bar> \<le> float_eps"
  unfolding product_factor_def exact_product_factor_def Let_def
  by (auto simp only: if_P if_not_P split: if_splits
      intro!: float_sub_step float_add_step no_step assms)

lemma tenure_factor_error:
  assumes "\<bar>fb\<bar> \<le> 1"
  shows "\<exists>fv v. tenure_factor now p fb = Inr fv \<and> exact_tenure_factor now p b = Inr v
           \<and> \<bar>(fv - fb) - (v - b)\<bar> \<le> float_eps"
proof (cases "customer_since p = []")
  case True
  then show ?thesis
    using no_step by (simp add: tenure_factor_def exact_tenure_factor_def)
next
  case ne: False
  show ?thesis
  proof (cases "strptime_ymd (customer_since p)")
    case (Inl e)
    with strptime_ymd_raises [OF Inl] ne no_step show ?thesis
      by (auto simp: tenure_factor_def exact_tenure_factor_def)
  next
    case (Inr since)
    consider "5 \<le> tenure_years now since"
      | "\<not> 5 \<le> tenure_years now since" "3 \<le> tenure_years now since"
      | "\<not> 3 \<le> tenure_years now since" "tenure_years now since < 1"
      | "\<not> 3 \<le> tenure_years now since" "\<not> tenure_years now since < 1"
      by linarith
    then show ?thesis
    proof cases
      case 1
      have "\<bar>(float_sub fb (10 / 100) - fb) - ((b - 10 / 100) - b)\<bar> \<le> float_eps"
        by (rule float_sub_step [OF assms]) simp_all
      with 1 ne Inr show ?thesis
        by (simp add: tenure_factor_def exact_tenure_factor_def Let_def)
    next
      case 2
      have "\<bar>(float_sub fb (5 / 100) - fb) - ((b - 5 / 100) - b)\<bar> \<le> float_eps"
        by (rule float_sub_step [OF assms]) simp_all
      with 2 ne Inr show ?thesis
        by (simp add: tenure_factor_def exact_tenure_factor_def Let_def)
    next
      case 3
      have "\<bar>(float_add fb (8 / 100) - fb) - ((b + 8 / 100) - b)\<bar> \<le> float_eps"
        by (rule float_add_step [OF assms]) simp_all
      with 3 ne Inr show ?thesis
        by (simp add: tenure_factor_def exact_tenure_factor_def Let_def)
    next
      case 4
      with ne Inr no_step show ?thesis
        by (simp add: tenure_factor_def exact_tenure_factor_def Let_def)
    qed
  qed
qed

lemma transaction_factor_error:
  assumes "\<bar>fb\<bar> \<le> 1"
  shows "\<exists>fv v. transaction_factor p fb = Inr fv \<and> exact_transaction_factor p b = Inr v
           \<and> \<bar>(fv - fb) - (v - b)\<bar> \<le> float_eps"
proof (cases "recent_transactions p")
  case Nil
  then show ?thesis
    using no_step by (simp add: transaction_factor_def exact_transaction_factor_def)
next
  case (Cons t ts)
  then obtain m where m: "py_max (amounts_of (recent_transactions p)) = Inr m"
    by (simp add: amounts_of_def)
  have ne: "recent_transactions p \<noteq> []" "amounts_of (recent_transactions p) \<noteq> []"
    using Cons by (simp_all add: amounts_of_def)
  consider "10000 < m" | "\<not> 10000 < m" "5000 < m" | "\<not> 5000 < m" by linarith
  then show ?thesis
  proof cases
    case 1
    have "\<bar>(float_add fb (10 / 100) - fb) - ((b + 10 / 100) - b)\<bar> \<le> float_eps"
      by (rule float_add_step [OF assms]) simp_all
    with 1 ne m show ?thesis
      by (simp add: transaction_factor_def exact_transaction_factor_def Let_def)
  next
    case 2
    have "\<bar>(float_add fb (3 / 100) - fb) - ((b + 3 / 100) - b)\<bar> \<le> float_eps"
      by (rule float_add_step [OF assms]) simp_all
    with 2 ne m show ?thesis
      by (simp add: transaction_factor_def exact_transaction_factor_def Let_def)
  next
    case 3
    with ne m no_step show ?thesis
      by (simp add: transaction_factor_def exact_transaction_factor_def Let_def)
  qed
qed

lemma final_base_score_close:
  "\<exists>fb b. final_base_score now p sr = Inr fb \<and> exact_base_score now p sr = Inr b
      \<and> \<bar>fb - b\<bar> \<le> 5 * float_eps \<and> 2 / 100 \<le> b \<and> b \<le> 98 / 100"
proof -
  note u = float_eps_bounds
  define b1 where "b1 = exact_income_factor p (5 / 10)"
  define f1 where "f1 = income_factor p (5 / 10)"
  define b2 where "b2 = exact_credit_factor p b1"
  define f2 where "f2 = credit_factor p f1"
  have r1: "5 / 10 - 15 / 100 \<le> b1" "b1 \<le> 5 / 10 + 10 / 100"
    using exact_income_factor_bounds [of "5 / 10" p] by (simp_all add: b1_def)
  have r2: "b1 - 15 / 100 \<le> b2" "b2 \<le> b1 + 15 / 100"
    using exact_credit_factor_bounds [of b1 p] by (simp_all add: b2_def)
  have "\<bar>(5 / 10 :: rat)\<bar> \<le> 1" by simp
  from income_factor_error [OF this, of p "5 / 10"]
  have e1: "\<bar>f1 - b1\<bar> \<le> float_eps" unfolding f1_def b1_def by linarith
  have a1: "\<bar>f1\<bar> \<le> 1" using r1 e1 u by linarith
  have e2: "\<bar>f2 - b2\<bar> \<le> 2 * float_eps"
    using credit_factor_error [OF a1, of p b1] e1 unfolding f2_def b2_def by linarith
  have a2: "\<bar>f2\<bar> \<le> 1" using r1 r2 e2 u by linarith
  obtain f3 b3 where t: "tenure_factor now p f2 = Inr f3" "exact_tenure_factor now p b2 = Inr b3"
    "\<bar>(f3 - f2) - (b3 - b2)\<bar> \<le> float_eps"
    using tenure_factor_error [OF a2] by blast
  have r3: "b2 - 10 / 100 \<le> b3" "b3 \<le> b2 + 8 / 100"
    using exact_tenure_factor_bounds [of now p b2] t(2) by auto
  have e3: "\<bar>f3 - b3\<bar> \<le> 3 * float_eps" using e2 t(3) by linarith
  have a3: "\<bar>f3\<bar> \<le> 1" using r1 r2 r3 e3 u by linarith
  define b4 where "b4 = exact_product_factor p b3"
  define f4 where "f4 = product_factor p f3"
  have r4: "b3 - 8 / 100 \<le> b4" "b4 \<le> b3 + 5 / 100"
    using exact_product_factor_bounds [of b3 p] by (simp_all add: b4_def)
  have e4: "\<bar>f4 - b4\<bar> \<le> 4 * float_eps"
    using product_factor_error [OF a3, of p b3] e3 unfolding f4_def b4_def by linarith
  have a4: "\<bar>f4\<bar> \<le> 1" using r1 r2 r3 r4 e4 u by linarith
  obtain f5 b5 where x: "transaction_factor p f4 = Inr f5" "exact_transaction_factor p b4 = Inr b5"
    "\<bar>(f5 - f4) - (b5 - b4)\<bar> \<le> float_eps"
    using transaction_factor_error [OF a4] by blast
  have r5: "b4 \<le> b5" "b5 \<le> b4 + 10 / 100"
    using exact_transaction_factor_bounds [of p b4] x(2) by auto
  have e5: "\<bar>f5 - b5\<bar> \<le> 5 * float_eps" using e4 x(3) by linarith
  have "final_base_score now p sr = Inr f5"
    using t(1) x(1) by (simp add: final_base_score_def f1_def f2_def f4_def)
  moreover have "exact_base_score now p sr = Inr b5"
    using t(2) x(2) by (simp add: exact_base_score_def b1_def b2_def b4_def)
  moreover have "2 / 100 \<le> b5" "b5 \<le> 98 / 100"
    using r1 r2 r3 r4 r5 by linarith+
  ultimately show ?thesis using e5 by blast
qed

text \<open>Rounded to three places, the float is the exact decimal sum.\<close>

lemma py_round_final_base_score:
  assumes "final_base_score now p sr = Inr fb" "exact_base_score now p sr = Inr b"
  shows "py_round fb 3 = b"
proof -
  from final_base_score_close [of now p sr] assms
  have close: "\<bar>fb - b\<bar> \<le> 5 * float_eps" by auto
  obtain k :: int where "exact_base_score now p sr = Inr (of_int k / 100)"
    using exact_base_score_hundredths by blast
  with assms(2) have b: "b = of_int (10 * k) / 1000" by simp
  have eq: "fb * 10 ^ 3 - of_int (10 * k) = (fb - b) * 1000" by (simp add: b)
  have "\<bar>(fb - b) * 1000\<bar> = \<bar>fb - b\<bar> * 1000" by (subst abs_mult) simp
  moreover have "\<bar>fb - b\<bar> < 1 / 2000" using close float_eps_bounds by linarith
  then have "\<bar>fb - b\<bar> * 1000 < 1 / 2" by simp
  ultimately have "\<bar>(fb - b) * 1000\<bar> < 1 / 2" by (simp only:)
  then have "\<bar>fb * 10 ^ 3 - of_int (10 * k)\<bar> < 1 / 2" by (simp only: eq)
  then have "round_half_even (fb * 10 ^ 3) = 10 * k" by (rule round_half_even_near)
  then show ?thesis by (simp add: py_round_def b)
qed

text \<open>So the score returned is the exact decimal sum of the base score and the adjustments.\<close>

lemma calculate_enhanced_risk_score_exact:
  assumes "exact_base_score now p sr = Inr b"
  shows "calculate_enhanced_risk_score now p sr = Inr b"
proof -
  from final_base_score_close [of now p sr] assms
  obtain fb where fb: "final_base_score now p sr = Inr fb" and "0 \<le> b" "b \<le> 1" by auto
  with py_round_final_base_score [OF fb assms] show ?thesis
    by (simp add: calculate_enhanced_risk_score_def)
qed

section \<open>Claims about the score and its tier\<close>

text \<open>
  C1. For every profile and reference time the score is returned (no exception), lies in
  \<open>[0, 1]\<close> and is a whole number of thousandths; a second call with the same profile and
  the same reference time returns the same score, whatever the search results.
\<close>

theorem risk_score_unit_interval_three_places:
  "\<exists>s k. calculate_enhanced_risk_score now p sr = Inr s \<and> 0 \<le> s \<and> s \<le> 1
      \<and> s = of_int k / 1000
      \<and> (\<forall>now' p' sr'. now' = now \<and> p' = p \<longrightarrow>
            calculate_enhanced_risk_score now' p' sr' = Inr s)"
proof -
  obtain b where b: "exact_base_score now p sr = Inr b" "2 / 100 \<le> b" "b \<le> 98 / 100"
    using exact_base_score_bounds by blast
  obtain k :: int where k: "exact_base_score now p sr = Inr (of_int k / 100)"
    using exact_base_score_hundredths by blast
  from b(1) k have bk: "b = of_int (10 * k) / 1000" by simp
  have s: "calculate_enhanced_risk_score now p sr = Inr b"
    using b(1) by (rule calculate_enhanced_risk_score_exact)
  have ind: "calculate_enhanced_risk_score now p sr' = Inr b" for sr'
    using s by (simp add: calculate_enhanced_risk_score_def final_base_score_def)
  have "0 \<le> b" "b \<le> 1" using b(2,3) by simp_all
  moreover have "\<forall>now' p' sr'. now' = now \<and> p' = p \<longrightarrow>
      calculate_enhanced_risk_score now' p' sr' = Inr b"
    using ind by simp
  ultimately show ?thesis using s bk by blast
qed

theorem risk_score_unit_interval_three_places_witness:
  "calculate_enhanced_risk_score sample_now profile_12345 [] = Inr (7 / 100) \<and>
   (\<exists>k::int. (7 / 100 :: rat) = of_int k / 1000) \<and>
   calculate_enhanced_risk_score sample_now profile_12345 [sample_excerpt] = Inr (7 / 100)"
proof -
  have "exact_base_score sample_now profile_12345 [] = Inr (7 / 100)"
    by code_simp
  then have v: "calculate_enhanced_risk_score sample_now profile_12345 [] = Inr (7 / 100)"
    by (rule calculate_enhanced_risk_score_exact)
  from risk_score_unit_interval_three_places [of sample_now profile_12345 "[]"] v
  show ?thesis by auto
qed

text \<open>
  C3. The tier of a score: below 0.25 "low", from 0.25 to below 0.50 "medium-low", from
  0.50 to below 0.65 "medium", from 0.65 to below 0.80 "high", from 0.80 on "critical";
  each lower bound belongs to the upper interval.
\<close>

theorem risk_tier_intervals:
  "(s < 25 / 100 \<longrightarrow> determine_risk_tier s = ''low'')
   \<and> (25 / 100 \<le> s \<and> s < 50 / 100 \<longrightarrow> determine_risk_tier s = ''medium-low'')
   \<and> (50 / 100 \<le> s \<and> s < 65 / 100 \<longrightarrow> determine_risk_tier s = ''medium'')
   \<and> (65 / 100 \<le> s \<and> s < 80 / 100 \<longrightarrow> determine_risk_tier s = ''high'')
   \<and> (80 / 100 \<le> s \<longrightarrow> determine_risk_tier s = ''critical'')
   \<and> determine_risk_tier (25 / 100) = ''medium-low''
   \<and> determine_risk_tier (5 / 10) = ''medium''
   \<and> determine_risk_tier (65 / 100) = ''high''
   \<and> determine_risk_tier (80 / 100) = ''critical''"
  by (simp add: determine_risk_tier_def)

theorem risk_tier_intervals_witness:
  "determine_risk_tier (24999 / 100000) = ''low''
   \<and> determine_risk_tier (4999 / 10000) = ''medium-low''
   \<and> determine_risk_tier (649 / 1000) = ''medium''
   \<and> determine_risk_tier (799 / 1000) = ''high''
   \<and> determine_risk_tier (9 / 10) = ''critical''"
  using risk_tier_intervals [of "24999 / 100000"] risk_tier_intervals [of "4999 / 10000"]
    risk_tier_intervals [of "649 / 1000"] risk_tier_intervals [of "799 / 1000"]
    risk_tier_intervals [of "9 / 10"]
  by simp

text \<open>
  C4. Scenario A (income 75000, credit score 780, no tenure start date, five products,
  largest recent transaction 4500) scores 0.17, tier "low"; scenario B (income 28000,
  credit score 620, no tenure start date, one product, largest recent transaction 2300)
  scores 0.80, tier "critical".
\<close>

theorem scenario_scores:
  "(income p = 75000 \<and> credit_score p = 780 \<and> customer_since p = []
      \<and> length (banking_products p) = 5
      \<and> py_max (amounts_of (recent_transactions p)) = Inr 4500
      \<longrightarrow> calculate_enhanced_risk_score now p sr = Inr (17 / 100)
          \<and> determine_risk_tier (17 / 100) = ''low'')
   \<and> (income q = 28000 \<and> credit_score q = 620 \<and> customer_since q = []
      \<and> length (banking_products q) = 1
      \<and> py_max (amounts_of (recent_transactions q)) = Inr 2300
      \<longrightarrow> calculate_enhanced_risk_score now q sr = Inr (80 / 100)
          \<and> determine_risk_tier (80 / 100) = ''critical'')"
proof (intro conjI impI)
  assume a: "income p = 75000 \<and> credit_score p = 780 \<and> customer_since p = []
      \<and> length (banking_products p) = 5
      \<and> py_max (amounts_of (recent_transactions p)) = Inr 4500"
  then have "exact_base_score now p sr = Inr (17 / 100)"
    by (cases "recent_transactions p")
       (simp_all add: exact_base_score_def exact_income_factor_def exact_credit_factor_def
          exact_tenure_factor_def exact_product_factor_def exact_transaction_factor_def amounts_of_def)
  then show "calculate_enhanced_risk_score now p sr = Inr (17 / 100)"
    by (rule calculate_enhanced_risk_score_exact)
next
  assume a: "income q = 28000 \<and> credit_score q = 620 \<and> customer_since q = []
      \<and> length (banking_products q) = 1
      \<and> py_max (amounts_of (recent_transactions q)) = Inr 2300"
  then have "exact_base_score now q sr = Inr (80 / 100)"
    by (cases "recent_transactions q")
       (simp_all add: exact_base_score_def exact_income_factor_def exact_credit_factor_def
          exact_tenure_factor_def exact_product_factor_def exact_transaction_factor_def amounts_of_def)
  then show "calculate_enhanced_risk_score now q sr = Inr (80 / 100)"
    by (rule calculate_enhanced_risk_score_exact)
qed (simp_all add: determine_risk_tier_def)

theorem scenario_scores_witness:
  "calculate_enhanced_risk_score sample_now (profile_12345\<lparr>customer_since := []\<rparr>) []
     = Inr (17 / 100)
   \<and> determine_risk_tier (17 / 100) = ''low''
   \<and> calculate_enhanced_risk_score sample_now (profile_11111\<lparr>customer_since := []\<rparr>) []
     = Inr (80 / 100)
   \<and> determine_risk_tier (80 / 100) = ''critical''"
proof -
  let ?a = "profile_12345\<lparr>customer_since := []\<rparr>"
  let ?b = "profile_11111\<lparr>customer_since := []\<rparr>"
  have a: "income ?a = 75000 \<and> credit_score ?a = 780 \<and> customer_since ?a = []
      \<and> length (banking_products ?a) = 5
      \<and> py_max (amounts_of (recent_transactions ?a)) = Inr 4500"
    by code_simp
  have b: "income ?b = 28000 \<and> credit_score ?b = 620 \<and> customer_since ?b = []
      \<and> length (banking_products ?b) = 1
      \<and> py_max (amounts_of (recent_transactions ?b)) = Inr 2300"
    by code_simp
  from scenario_scores [where p = ?a and q = ?b and now = sample_now and sr = "[]"] a b
  show ?thesis by blast
qed




section \<open>How one factor moves the score\<close>

lemma exact_tenure_factor_shift:
  "exact_tenure_factor now p b = Inr v \<Longrightarrow> exact_tenure_factor now p (b + d) = Inr (v + d)"
  by (auto simp: exact_tenure_factor_def Let_def split: if_splits sum.splits py_exception.splits)

text \<open>
  Two profiles that differ in the first two steps only: a change \<open>d\<close> after the credit
  step is the change of the exact sum.
\<close>

lemma exact_base_score_shift:
  assumes same: "customer_since p' = customer_since p"
      "banking_products p' = banking_products p"
      "recent_transactions p' = recent_transactions p"
    and d: "exact_credit_factor p' (exact_income_factor p' (5 / 10))
              = exact_credit_factor p (exact_income_factor p (5 / 10)) + d"
    and acc: "exact_base_score now p sr = Inr b"
  shows "exact_base_score now p' sr = Inr (b + d)"
proof -
  define x where "x = exact_credit_factor p (exact_income_factor p (5 / 10))"
  obtain t where t: "exact_tenure_factor now p x = Inr t"
    using exact_tenure_factor_bounds by blast
  have tp: "exact_tenure_factor now p' y = exact_tenure_factor now p y" for y
    using same(1) by (simp add: exact_tenure_factor_def)
  have pp: "exact_product_factor p' y = exact_product_factor p y" for y
    using same(2) by (simp add: exact_product_factor_def)
  have xp: "exact_transaction_factor p' y = exact_transaction_factor p y" for y
    using same(3) by (simp add: exact_transaction_factor_def)
  from acc t have b: "exact_transaction_factor p (exact_product_factor p t) = Inr b"
    by (simp add: exact_base_score_def x_def)
  have "exact_tenure_factor now p' (x + d) = Inr (t + d)"
    unfolding tp using t by (rule exact_tenure_factor_shift)
  moreover have "exact_transaction_factor p' (exact_product_factor p' (t + d)) = Inr (b + d)"
    unfolding xp pp exact_product_factor_shift using b by (rule exact_transaction_factor_shift)
  ultimately show ?thesis
    using d by (simp add: exact_base_score_def x_def)
qed

lemma exact_income_factor_antimono:
  "income p \<le> income p' \<Longrightarrow> exact_income_factor p' b \<le> exact_income_factor p b"
  by (simp add: exact_income_factor_def)

lemma exact_credit_factor_antimono:
  "credit_score p \<le> credit_score p'
     \<Longrightarrow> 0 < credit_score p \<or> credit_score p' \<le> 0 \<or> 700 \<le> credit_score p'
     \<Longrightarrow> exact_credit_factor p' b \<le> exact_credit_factor p b"
  by (auto simp: exact_credit_factor_def)

lemma exact_credit_factor_unknown:
  "credit_score p \<le> 0 \<Longrightarrow> 0 < credit_score p' \<Longrightarrow> credit_score p' < 700
     \<Longrightarrow> exact_credit_factor p b < exact_credit_factor p' b"
  by (auto simp: exact_credit_factor_def)

lemma exact_credit_factor_income_update: "exact_credit_factor (p\<lparr>income := i\<rparr>) b = exact_credit_factor p b"
  by (simp add: exact_credit_factor_def)

lemma exact_income_factor_credit_update: "exact_income_factor (p\<lparr>credit_score := c\<rparr>) b = exact_income_factor p b"
  by (simp add: exact_income_factor_def)

lemma exact_income_factor_since_update: "exact_income_factor (p\<lparr>customer_since := s\<rparr>) b = exact_income_factor p b"
  by (simp add: exact_income_factor_def)

lemma exact_credit_factor_since_update: "exact_credit_factor (p\<lparr>customer_since := s\<rparr>) b = exact_credit_factor p b"
  by (simp add: exact_credit_factor_def)

lemma exact_product_factor_since_update: "exact_product_factor (p\<lparr>customer_since := s\<rparr>) b = exact_product_factor p b"
  by (simp add: exact_product_factor_def)

lemma exact_transaction_factor_since_update:
  "exact_transaction_factor (p\<lparr>customer_since := s\<rparr>) b = exact_transaction_factor p b"
  by (simp add: exact_transaction_factor_def)

text \<open>
  The exact sum of a profile is that of the same profile without a start date,
  moved by what the tenure step adds.
\<close>

lemma exact_base_score_tenure:
  assumes t: "\<And>b. exact_tenure_factor now p b = Inr (b + a)"
    and b0: "exact_base_score now (p\<lparr>customer_since := []\<rparr>) sr = Inr b0"
  shows "exact_base_score now p sr = Inr (b0 + a)"
proof -
  define x where "x = exact_credit_factor p (exact_income_factor p (5 / 10))"
  have "exact_tenure_factor now (p\<lparr>customer_since := []\<rparr>) x = Inr x"
    by (simp add: exact_tenure_factor_def)
  with b0 have "exact_transaction_factor p (exact_product_factor p x) = Inr b0"
    by (simp add: exact_base_score_def x_def exact_income_factor_since_update
        exact_credit_factor_since_update exact_product_factor_since_update exact_transaction_factor_since_update)
  then have "exact_transaction_factor p (exact_product_factor p (x + a)) = Inr (b0 + a)"
    unfolding exact_product_factor_shift by (rule exact_transaction_factor_shift)
  with t [of x] show ?thesis
    by (simp add: exact_base_score_def x_def)
qed

section \<open>Claims about single factors\<close>

text \<open>
  C5, as the code has it. With the other factors and the reference time fixed, a higher
  income never gives a higher score. A higher credit score never gives a higher score,
  except when a credit score of 0 or less (unknown, no adjustment) is replaced by a
  positive credit score below 700: then the score is higher (see the counterexample).
\<close>

theorem risk_score_monotone:
  "(income p \<le> i \<longrightarrow>
      (\<exists>s s'. calculate_enhanced_risk_score now p sr = Inr s
             \<and> calculate_enhanced_risk_score now (p\<lparr>income := i\<rparr>) sr = Inr s' \<and> s' \<le> s))
   \<and> (credit_score p \<le> c \<and> (0 < credit_score p \<or> c \<le> 0 \<or> 700 \<le> c) \<longrightarrow>
      (\<exists>s s'. calculate_enhanced_risk_score now p sr = Inr s
             \<and> calculate_enhanced_risk_score now (p\<lparr>credit_score := c\<rparr>) sr = Inr s' \<and> s' \<le> s))
   \<and> (credit_score p \<le> 0 \<and> 0 < c \<and> c < 700 \<longrightarrow>
      (\<exists>s s'. calculate_enhanced_risk_score now p sr = Inr s
             \<and> calculate_enhanced_risk_score now (p\<lparr>credit_score := c\<rparr>) sr = Inr s' \<and> s < s'))"
proof (intro conjI impI)
  obtain b where b: "exact_base_score now p sr = Inr b"
    using exact_base_score_bounds by blast
  have s: "calculate_enhanced_risk_score now p sr = Inr b"
    using b by (rule calculate_enhanced_risk_score_exact)
  {
    assume le: "income p \<le> i"
    let ?p = "p\<lparr>income := i\<rparr>"
    define d where "d = exact_income_factor ?p (5 / 10) - exact_income_factor p (5 / 10)"
    have "d \<le> 0"
      using exact_income_factor_antimono [of p ?p "5 / 10"] le by (simp add: d_def)
    moreover have "exact_credit_factor ?p (exact_income_factor ?p (5 / 10))
        = exact_credit_factor p (exact_income_factor p (5 / 10)) + d"
      unfolding exact_credit_factor_income_update exact_credit_factor_shift [symmetric]
      by (simp add: d_def)
    then have "exact_base_score now ?p sr = Inr (b + d)"
      using b by (intro exact_base_score_shift) simp_all
    then have "calculate_enhanced_risk_score now ?p sr = Inr (b + d)"
      by (rule calculate_enhanced_risk_score_exact)
    ultimately show "\<exists>s s'. calculate_enhanced_risk_score now p sr = Inr s
             \<and> calculate_enhanced_risk_score now ?p sr = Inr s' \<and> s' \<le> s"
      using s by simp
  }
  let ?p = "p\<lparr>credit_score := c\<rparr>"
  define x where "x = exact_income_factor p (5 / 10)"
  define d where "d = exact_credit_factor ?p x - exact_credit_factor p x"
  have "exact_credit_factor ?p (exact_income_factor ?p (5 / 10))
      = exact_credit_factor p (exact_income_factor p (5 / 10)) + d"
    unfolding exact_income_factor_credit_update by (simp add: d_def x_def)
  then have "exact_base_score now ?p sr = Inr (b + d)"
    using b by (intro exact_base_score_shift) simp_all
  then have s': "calculate_enhanced_risk_score now ?p sr = Inr (b + d)"
    by (rule calculate_enhanced_risk_score_exact)
  {
    assume le: "credit_score p \<le> c \<and> (0 < credit_score p \<or> c \<le> 0 \<or> 700 \<le> c)"
    have "d \<le> 0"
      using exact_credit_factor_antimono [of p ?p x] le by (simp add: d_def)
    then show "\<exists>s s'. calculate_enhanced_risk_score now p sr = Inr s
             \<and> calculate_enhanced_risk_score now ?p sr = Inr s' \<and> s' \<le> s"
      using s s' by simp
  }
  {
    assume un: "credit_score p \<le> 0 \<and> 0 < c \<and> c < 700"
    have "0 < d"
      using exact_credit_factor_unknown [of p ?p x] un by (simp add: d_def)
    then show "\<exists>s s'. calculate_enhanced_risk_score now p sr = Inr s
             \<and> calculate_enhanced_risk_score now ?p sr = Inr s' \<and> s < s'"
      using s s' by simp
  }
qed

theorem risk_score_monotone_witness:
  "calculate_enhanced_risk_score sample_now profile_67890 [] = Inr (42 / 100)
   \<and> calculate_enhanced_risk_score sample_now (profile_67890\<lparr>income := 50000\<rparr>) []
       = Inr (37 / 100)
   \<and> calculate_enhanced_risk_score sample_now (profile_67890\<lparr>credit_score := 700\<rparr>) []
       = Inr (29 / 100)
   \<and> calculate_enhanced_risk_score sample_now (CustomerProfile ''99999'') [] = Inr (65 / 100)
   \<and> calculate_enhanced_risk_score sample_now
        ((CustomerProfile ''99999'')\<lparr>credit_score := 700\<rparr>) [] = Inr (57 / 100)
   \<and> calculate_enhanced_risk_score sample_now
        ((CustomerProfile ''99999'')\<lparr>credit_score := 650\<rparr>) [] = Inr (70 / 100)
   \<and> (\<exists>s s'. calculate_enhanced_risk_score sample_now profile_67890 [] = Inr s
        \<and> calculate_enhanced_risk_score sample_now (profile_67890\<lparr>income := 50000\<rparr>) []
            = Inr s' \<and> s' \<le> s)
   \<and> (\<exists>s s'. calculate_enhanced_risk_score sample_now profile_67890 [] = Inr s
        \<and> calculate_enhanced_risk_score sample_now (profile_67890\<lparr>credit_score := 700\<rparr>) []
            = Inr s' \<and> s' \<le> s)
   \<and> (\<exists>s s'. calculate_enhanced_risk_score sample_now (CustomerProfile ''99999'') [] = Inr s
        \<and> calculate_enhanced_risk_score sample_now
            ((CustomerProfile ''99999'')\<lparr>credit_score := 700\<rparr>) [] = Inr s' \<and> s' \<le> s)
   \<and> (\<exists>s s'. calculate_enhanced_risk_score sample_now (CustomerProfile ''99999'') [] = Inr s
        \<and> calculate_enhanced_risk_score sample_now
            ((CustomerProfile ''99999'')\<lparr>credit_score := 650\<rparr>) [] = Inr s' \<and> s < s')"
proof -
  let ?u = "CustomerProfile ''99999''"
  have i: "income profile_67890 \<le> 50000" by code_simp
  have c: "credit_score profile_67890 \<le> 700
      \<and> (0 < credit_score profile_67890 \<or> (700 :: int) \<le> 0 \<or> (700 :: int) \<le> 700)"
    by code_simp
  have u: "credit_score ?u \<le> 700 \<and> (0 < credit_score ?u \<or> (700 :: int) \<le> 0 \<or> (700 :: int) \<le> 700)"
    by code_simp
  have w: "credit_score ?u \<le> 0 \<and> (0 :: int) < 650 \<and> (650 :: int) < 700"
    by code_simp
  have "exact_base_score sample_now profile_67890 [] = Inr (42 / 100)"
    by code_simp
  then have v1: "calculate_enhanced_risk_score sample_now profile_67890 [] = Inr (42 / 100)"
    by (rule calculate_enhanced_risk_score_exact)
  have "exact_base_score sample_now (profile_67890\<lparr>income := 50000\<rparr>) [] = Inr (37 / 100)"
    by code_simp
  then have v2: "calculate_enhanced_risk_score sample_now (profile_67890\<lparr>income := 50000\<rparr>) []
      = Inr (37 / 100)"
    by (rule calculate_enhanced_risk_score_exact)
  have "exact_base_score sample_now (profile_67890\<lparr>credit_score := 700\<rparr>) [] = Inr (29 / 100)"
    by code_simp
  then have v3: "calculate_enhanced_risk_score sample_now (profile_67890\<lparr>credit_score := 700\<rparr>) []
      = Inr (29 / 100)"
    by (rule calculate_enhanced_risk_score_exact)
  have "exact_base_score sample_now ?u [] = Inr (65 / 100)"
    by code_simp
  then have v4: "calculate_enhanced_risk_score sample_now ?u [] = Inr (65 / 100)"
    by (rule calculate_enhanced_risk_score_exact)
  have "exact_base_score sample_now (?u\<lparr>credit_score := 700\<rparr>) [] = Inr (57 / 100)"
    by code_simp
  then have v5: "calculate_enhanced_risk_score sample_now (?u\<lparr>credit_score := 700\<rparr>) []
      = Inr (57 / 100)"
    by (rule calculate_enhanced_risk_score_exact)
  have "exact_base_score sample_now (?u\<lparr>credit_score := 650\<rparr>) [] = Inr (70 / 100)"
    by code_simp
  then have v6: "calculate_enhanced_risk_score sample_now (?u\<lparr>credit_score := 650\<rparr>) []
      = Inr (70 / 100)"
    by (rule calculate_enhanced_risk_score_exact)
  from risk_score_monotone [where p = profile_67890 and i = 50000 and now = sample_now
      and sr = "[]" and c = 700] i c
  have 1: "\<exists>s s'. calculate_enhanced_risk_score sample_now profile_67890 [] = Inr s
        \<and> calculate_enhanced_risk_score sample_now (profile_67890\<lparr>income := 50000\<rparr>) []
            = Inr s' \<and> s' \<le> s"
    and 2: "\<exists>s s'. calculate_enhanced_risk_score sample_now profile_67890 [] = Inr s
        \<and> calculate_enhanced_risk_score sample_now (profile_67890\<lparr>credit_score := 700\<rparr>) []
            = Inr s' \<and> s' \<le> s"
    by blast+
  from risk_score_monotone [where p = ?u and now = sample_now and sr = "[]" and c = 700] u
  have 3: "\<exists>s s'. calculate_enhanced_risk_score sample_now ?u [] = Inr s
        \<and> calculate_enhanced_risk_score sample_now (?u\<lparr>credit_score := 700\<rparr>) [] = Inr s'
        \<and> s' \<le> s"
    by blast
  from risk_score_monotone [where p = ?u and now = sample_now and sr = "[]" and c = 650] w
  have 4: "\<exists>s s'. calculate_enhanced_risk_score sample_now ?u [] = Inr s
        \<and> calculate_enhanced_risk_score sample_now (?u\<lparr>credit_score := 650\<rparr>) [] = Inr s'
        \<and> s < s'"
    by blast
  from v1 v2 v3 v4 v5 v6 1 2 3 4 show ?thesis by (intro conjI)
qed

text \<open>
  C5 as stated fails: the profile of an unknown customer has credit score 0 and scores
  0.65; with credit score 620 and everything else unchanged it scores 0.80.
\<close>

theorem credit_score_raises_risk_counterexample:
  "credit_score (CustomerProfile ''99999'') \<le> 620
   \<and> calculate_enhanced_risk_score sample_now (CustomerProfile ''99999'') [] = Inr (65 / 100)
   \<and> calculate_enhanced_risk_score sample_now
        ((CustomerProfile ''99999'')\<lparr>credit_score := 620\<rparr>) [] = Inr (80 / 100)
   \<and> \<not> ((80 / 100 :: rat) \<le> 65 / 100)"
proof -
  let ?u = "CustomerProfile ''99999''"
  have c: "credit_score ?u \<le> 620" by code_simp
  have "exact_base_score sample_now ?u [] = Inr (65 / 100)"
    by code_simp
  then have v1: "calculate_enhanced_risk_score sample_now ?u [] = Inr (65 / 100)"
    by (rule calculate_enhanced_risk_score_exact)
  have "exact_base_score sample_now (?u\<lparr>credit_score := 620\<rparr>) [] = Inr (80 / 100)"
    by code_simp
  then have v2: "calculate_enhanced_risk_score sample_now (?u\<lparr>credit_score := 620\<rparr>) []
      = Inr (80 / 100)"
    by (rule calculate_enhanced_risk_score_exact)
  have n: "\<not> ((80 / 100 :: rat) \<le> 65 / 100)" by simp
  from c v1 v2 n show ?thesis by (intro conjI)
qed

text \<open>
  The years of tenure are whole days divided by 365.25, so the three thresholds are
  thresholds on days.
\<close>

lemma tenure_years_days:
  "5 \<le> tenure_years now since \<longleftrightarrow> 1827 \<le> timedelta_days now since"
  "3 \<le> tenure_years now since \<longleftrightarrow> 1096 \<le> timedelta_days now since"
  "tenure_years now since < 1 \<longleftrightarrow> timedelta_days now since \<le> 365"
proof -
  define d where "d = timedelta_days now since"
  have y: "tenure_years now since = of_int (100 * d) / of_int 36525"
    by (simp add: tenure_years_def d_def)
  have "5 \<le> tenure_years now since \<longleftrightarrow> (of_int 182625 :: rat) \<le> of_int (100 * d)"
    unfolding y by (simp add: field_simps)
  also have "\<dots> \<longleftrightarrow> 182625 \<le> 100 * d" by (simp only: of_int_le_iff)
  also have "\<dots> \<longleftrightarrow> 1827 \<le> d" by presburger
  finally show "5 \<le> tenure_years now since \<longleftrightarrow> 1827 \<le> timedelta_days now since"
    by (simp only: d_def)
  have "3 \<le> tenure_years now since \<longleftrightarrow> (of_int 109575 :: rat) \<le> of_int (100 * d)"
    unfolding y by (simp add: field_simps)
  also have "\<dots> \<longleftrightarrow> 109575 \<le> 100 * d" by (simp only: of_int_le_iff)
  also have "\<dots> \<longleftrightarrow> 1096 \<le> d" by presburger
  finally show "3 \<le> tenure_years now since \<longleftrightarrow> 1096 \<le> timedelta_days now since"
    by (simp only: d_def)
  have "tenure_years now since < 1 \<longleftrightarrow> (of_int (100 * d) :: rat) < of_int 36525"
    unfolding y by (simp add: field_simps)
  also have "\<dots> \<longleftrightarrow> 100 * d < 36525" by (simp only: of_int_less_iff)
  also have "\<dots> \<longleftrightarrow> d \<le> 365" by presburger
  finally show "tenure_years now since < 1 \<longleftrightarrow> timedelta_days now since \<le> 365"
    by (simp only: d_def)
qed

text \<open>The returned score of a profile determines its exact sum.\<close>

lemma exact_base_score_of_returned:
  assumes "calculate_enhanced_risk_score now p sr = Inr s"
  shows "exact_base_score now p sr = Inr s"
proof -
  obtain b where b: "exact_base_score now p sr = Inr b"
    using exact_base_score_bounds by blast
  then have "calculate_enhanced_risk_score now p sr = Inr b"
    by (rule calculate_enhanced_risk_score_exact)
  with assms b show ?thesis by simp
qed

text \<open>
  C9, as the code has it. The tenure is the number of whole days from the start date to
  the reference time, divided by 365.25: at least 5 years are at least 1827 days, at least
  3 years at least 1096 days, under 1 year at most 365 days. Relative to the returned
  score \<open>s0\<close> of the same profile without a start date, a start date that parses gives
  \<open>s0 - 0.10\<close> from 5 years on, \<open>s0 - 0.05\<close> from 3 to under 5 years, \<open>s0\<close> from 1 to under
  3 years and \<open>s0 + 0.08\<close> under 1 year. With a start date that is empty or does not parse
  the score \<open>s0\<close> is returned, and nothing is raised. A start date five years before the
  reference date can be under 5 years in this measure (see the counterexample).
\<close>

theorem tenure_adjustment:
  assumes "calculate_enhanced_risk_score now (p\<lparr>customer_since := []\<rparr>) sr = Inr s0"
  shows "(5 \<le> tenure_years now since \<longleftrightarrow> 1827 \<le> timedelta_days now since)
       \<and> (3 \<le> tenure_years now since \<longleftrightarrow> 1096 \<le> timedelta_days now since)
       \<and> (tenure_years now since < 1 \<longleftrightarrow> timedelta_days now since \<le> 365)
       \<and> (customer_since p \<noteq> [] \<and> strptime_ymd (customer_since p) = Inr since \<longrightarrow>
            (5 \<le> tenure_years now since \<longrightarrow>
               calculate_enhanced_risk_score now p sr = Inr (s0 - 10 / 100))
          \<and> (3 \<le> tenure_years now since \<and> tenure_years now since < 5 \<longrightarrow>
               calculate_enhanced_risk_score now p sr = Inr (s0 - 5 / 100))
          \<and> (1 \<le> tenure_years now since \<and> tenure_years now since < 3 \<longrightarrow>
               calculate_enhanced_risk_score now p sr = Inr s0)
          \<and> (tenure_years now since < 1 \<longrightarrow>
               calculate_enhanced_risk_score now p sr = Inr (s0 + 8 / 100)))
       \<and> (customer_since p = [] \<or> (\<exists>e. strptime_ymd (customer_since p) = Inl e) \<longrightarrow>
            calculate_enhanced_risk_score now p sr = Inr s0)"
proof (intro conjI impI)
  have b0: "exact_base_score now (p\<lparr>customer_since := []\<rparr>) sr = Inr s0"
    using assms by (rule exact_base_score_of_returned)
  {
    assume parsed: "customer_since p \<noteq> [] \<and> strptime_ymd (customer_since p) = Inr since"
    {
      assume "5 \<le> tenure_years now since"
      with parsed have "exact_tenure_factor now p b = Inr (b + (- (10 / 100)))" for b
        by (simp add: exact_tenure_factor_def Let_def)
      from exact_base_score_tenure [OF this b0]
      have "exact_base_score now p sr = Inr (s0 - 10 / 100)" by simp
      then show "calculate_enhanced_risk_score now p sr = Inr (s0 - 10 / 100)"
        by (rule calculate_enhanced_risk_score_exact)
    }
    {
      assume "3 \<le> tenure_years now since \<and> tenure_years now since < 5"
      with parsed have "exact_tenure_factor now p b = Inr (b + (- (5 / 100)))" for b
        by (simp add: exact_tenure_factor_def Let_def)
      from exact_base_score_tenure [OF this b0]
      have "exact_base_score now p sr = Inr (s0 - 5 / 100)" by simp
      then show "calculate_enhanced_risk_score now p sr = Inr (s0 - 5 / 100)"
        by (rule calculate_enhanced_risk_score_exact)
    }
    {
      assume "1 \<le> tenure_years now since \<and> tenure_years now since < 3"
      with parsed have "exact_tenure_factor now p b = Inr (b + 0)" for b
        by (simp add: exact_tenure_factor_def Let_def)
      from exact_base_score_tenure [OF this b0]
      have "exact_base_score now p sr = Inr s0" by simp
      then show "calculate_enhanced_risk_score now p sr = Inr s0"
        by (rule calculate_enhanced_risk_score_exact)
    }
    {
      assume "tenure_years now since < 1"
      with parsed have "exact_tenure_factor now p b = Inr (b + 8 / 100)" for b
        by (simp add: exact_tenure_factor_def Let_def)
      from exact_base_score_tenure [OF this b0]
      have "exact_base_score now p sr = Inr (s0 + 8 / 100)" by simp
      then show "calculate_enhanced_risk_score now p sr = Inr (s0 + 8 / 100)"
        by (rule calculate_enhanced_risk_score_exact)
    }
  }
  {
    assume none: "customer_since p = [] \<or> (\<exists>e. strptime_ymd (customer_since p) = Inl e)"
    have "exact_tenure_factor now p b = Inr (b + 0)" for b
    proof (cases "customer_since p = []")
      case True
      then show ?thesis by (simp add: exact_tenure_factor_def)
    next
      case False
      with none obtain e where e: "strptime_ymd (customer_since p) = Inl e" by blast
      with strptime_ymd_raises [OF e] show ?thesis
        by (auto simp: exact_tenure_factor_def)
    qed
    from exact_base_score_tenure [OF this b0]
    have "exact_base_score now p sr = Inr s0" by simp
    then show "calculate_enhanced_risk_score now p sr = Inr s0"
      by (rule calculate_enhanced_risk_score_exact)
  }
qed (rule tenure_years_days)+

theorem tenure_adjustment_witness:
  "calculate_enhanced_risk_score sample_now profile_12345 [] = Inr (17 / 100 - 10 / 100)
   \<and> calculate_enhanced_risk_score sample_now profile_11111 [] = Inr (80 / 100 - 5 / 100)
   \<and> calculate_enhanced_risk_score sample_now
       (profile_11111\<lparr>customer_since := ''2025-06-01''\<rparr>) [] = Inr (80 / 100)
   \<and> calculate_enhanced_risk_score sample_now
       (profile_11111\<lparr>customer_since := ''2026-06-01''\<rparr>) [] = Inr (80 / 100 + 8 / 100)
   \<and> calculate_enhanced_risk_score sample_now
       (profile_11111\<lparr>customer_since := ''2024-02-30''\<rparr>) [] = Inr (80 / 100)
   \<and> calculate_enhanced_risk_score sample_now
       (profile_11111\<lparr>customer_since := []\<rparr>) [] = Inr (80 / 100)"
proof -
  let ?mid = "profile_11111\<lparr>customer_since := ''2025-06-01''\<rparr>"
  let ?young = "profile_11111\<lparr>customer_since := ''2026-06-01''\<rparr>"
  let ?bad = "profile_11111\<lparr>customer_since := ''2024-02-30''\<rparr>"
  let ?none = "profile_11111\<lparr>customer_since := []\<rparr>"
  have "exact_base_score sample_now (profile_12345\<lparr>customer_since := []\<rparr>) []
      = Inr (17 / 100)"
    by code_simp
  then have a0: "calculate_enhanced_risk_score sample_now
      (profile_12345\<lparr>customer_since := []\<rparr>) [] = Inr (17 / 100)"
    by (rule calculate_enhanced_risk_score_exact)
  have "exact_base_score sample_now (profile_11111\<lparr>customer_since := []\<rparr>) []
      = Inr (80 / 100)"
    by code_simp
  then have b0: "calculate_enhanced_risk_score sample_now
      (profile_11111\<lparr>customer_since := []\<rparr>) [] = Inr (80 / 100)"
    by (rule calculate_enhanced_risk_score_exact)
  have m0: "calculate_enhanced_risk_score sample_now (?mid\<lparr>customer_since := []\<rparr>) []
      = Inr (80 / 100)"
    using b0 by simp
  have y0: "calculate_enhanced_risk_score sample_now (?young\<lparr>customer_since := []\<rparr>) []
      = Inr (80 / 100)"
    using b0 by simp
  have x0: "calculate_enhanced_risk_score sample_now (?bad\<lparr>customer_since := []\<rparr>) []
      = Inr (80 / 100)"
    using b0 by simp
  have n0: "calculate_enhanced_risk_score sample_now (?none\<lparr>customer_since := []\<rparr>) []
      = Inr (80 / 100)"
    using b0 by simp
  have a: "customer_since profile_12345 \<noteq> []
      \<and> strptime_ymd (customer_since profile_12345) = Inr \<lparr>dt_ordinal = 737194, dt_micros = 0\<rparr>"
    "5 \<le> tenure_years sample_now \<lparr>dt_ordinal = 737194, dt_micros = 0\<rparr>"
    by code_simp+
  have b: "customer_since profile_11111 \<noteq> []
      \<and> strptime_ymd (customer_since profile_11111) = Inr \<lparr>dt_ordinal = 738530, dt_micros = 0\<rparr>"
    "3 \<le> tenure_years sample_now \<lparr>dt_ordinal = 738530, dt_micros = 0\<rparr>
      \<and> tenure_years sample_now \<lparr>dt_ordinal = 738530, dt_micros = 0\<rparr> < 5"
    by code_simp+
  have m: "customer_since ?mid \<noteq> []
      \<and> strptime_ymd (customer_since ?mid) = Inr \<lparr>dt_ordinal = 739403, dt_micros = 0\<rparr>"
    "1 \<le> tenure_years sample_now \<lparr>dt_ordinal = 739403, dt_micros = 0\<rparr>
      \<and> tenure_years sample_now \<lparr>dt_ordinal = 739403, dt_micros = 0\<rparr> < 3"
    by code_simp+
  have y: "customer_since ?young \<noteq> []
      \<and> strptime_ymd (customer_since ?young) = Inr \<lparr>dt_ordinal = 739768, dt_micros = 0\<rparr>"
    "tenure_years sample_now \<lparr>dt_ordinal = 739768, dt_micros = 0\<rparr> < 1"
    by code_simp+
  have x: "strptime_ymd (customer_since ?bad) = Inl (ValueError ''day is out of range for month'')"
    by code_simp
  have n: "customer_since ?none = []" by simp
  from tenure_adjustment [OF a0, of "\<lparr>dt_ordinal = 737194, dt_micros = 0\<rparr>"] a
  have 1: "calculate_enhanced_risk_score sample_now profile_12345 []
      = Inr (17 / 100 - 10 / 100)"
    by blast
  from tenure_adjustment [OF b0, of "\<lparr>dt_ordinal = 738530, dt_micros = 0\<rparr>"] b
  have 2: "calculate_enhanced_risk_score sample_now profile_11111 []
      = Inr (80 / 100 - 5 / 100)"
    by blast
  from tenure_adjustment [OF m0, of "\<lparr>dt_ordinal = 739403, dt_micros = 0\<rparr>"] m
  have 3: "calculate_enhanced_risk_score sample_now ?mid [] = Inr (80 / 100)"
    by blast
  from tenure_adjustment [OF y0, of "\<lparr>dt_ordinal = 739768, dt_micros = 0\<rparr>"] y
  have 4: "calculate_enhanced_risk_score sample_now ?young [] = Inr (80 / 100 + 8 / 100)"
    by blast
  from tenure_adjustment [OF x0] x
  have 5: "calculate_enhanced_risk_score sample_now ?bad [] = Inr (80 / 100)"
    by blast
  from tenure_adjustment [OF n0] n
  have 6: "calculate_enhanced_risk_score sample_now ?none [] = Inr (80 / 100)"
    by blast
  from 1 2 3 4 5 6 show ?thesis by (intro conjI)
qed

text \<open>
  C9 as stated fails on an anniversary. The reference time is 3 November 2026; a start
  date of 3 November 2021 lies five years before it, but only 1826 days, which the code
  counts as under 5 years: the score is lowered by 0.05, not by 0.10.
\<close>

theorem fifth_anniversary_counterexample:
  "dt_ordinal sample_now = ymd2ord 2026 11 3
   \<and> strptime_ymd ''2021-11-03'' = Inr \<lparr>dt_ordinal = ymd2ord 2021 11 3, dt_micros = 0\<rparr>
   \<and> timedelta_days sample_now \<lparr>dt_ordinal = ymd2ord 2021 11 3, dt_micros = 0\<rparr> = 1826
   \<and> calculate_enhanced_risk_score sample_now (profile_11111\<lparr>customer_since := []\<rparr>) []
       = Inr (80 / 100)
   \<and> calculate_enhanced_risk_score sample_now
       (profile_11111\<lparr>customer_since := ''2021-11-03''\<rparr>) [] = Inr (75 / 100)
   \<and> (75 / 100 :: rat) \<noteq> 80 / 100 - 10 / 100"
proof -
  have d: "dt_ordinal sample_now = ymd2ord 2026 11 3"
    "strptime_ymd ''2021-11-03'' = Inr \<lparr>dt_ordinal = ymd2ord 2021 11 3, dt_micros = 0\<rparr>"
    "timedelta_days sample_now \<lparr>dt_ordinal = ymd2ord 2021 11 3, dt_micros = 0\<rparr> = 1826"
    by code_simp+
  have "exact_base_score sample_now (profile_11111\<lparr>customer_since := []\<rparr>) []
      = Inr (80 / 100)"
    by code_simp
  then have v1: "calculate_enhanced_risk_score sample_now
      (profile_11111\<lparr>customer_since := []\<rparr>) [] = Inr (80 / 100)"
    by (rule calculate_enhanced_risk_score_exact)
  have "exact_base_score sample_now (profile_11111\<lparr>customer_since := ''2021-11-03''\<rparr>) []
      = Inr (75 / 100)"
    by code_simp
  then have v2: "calculate_enhanced_risk_score sample_now
      (profile_11111\<lparr>customer_since := ''2021-11-03''\<rparr>) [] = Inr (75 / 100)"
    by (rule calculate_enhanced_risk_score_exact)
  have n: "(75 / 100 :: rat) \<noteq> 80 / 100 - 10 / 100" by simp
  from d v1 v2 n show ?thesis by (intro conjI)
qed

section \<open>Findings and recommendations are never empty\<close>

lemma py_min_Inr: "xs \<noteq> [] \<Longrightarrow> \<exists>v. py_min xs = Inr v"
  by (cases xs) simp_all

lemma py_max_Inr: "xs \<noteq> [] \<Longrightarrow> \<exists>v. py_max xs = Inr v"
  by (cases xs) simp_all

lemma length_income_findings: "length (income_findings p fs) = Suc (length fs)"
  by (simp add: income_findings_def)

lemma length_credit_findings: "length fs \<le> length (credit_findings p fs)"
  by (simp add: credit_findings_def)

lemma length_product_findings: "length fs \<le> length (product_findings p fs)"
  by (simp add: product_findings_def Let_def)

lemma length_policy_findings: "length fs \<le> length (policy_findings sr fs)"
  by (simp add: policy_findings_def Let_def)

lemma transaction_findings_Inr:
  "\<exists>fs'. transaction_findings p fs = Inr fs' \<and> length fs \<le> length fs'"
proof (cases "recent_transactions p = []")
  case True
  then show ?thesis by (simp add: transaction_findings_def)
next
  case False
  then have ne: "amounts_of (recent_transactions p) \<noteq> []"
    by (simp add: amounts_of_Nil)
  obtain lo hi where "py_min (amounts_of (recent_transactions p)) = Inr lo"
    "py_max (amounts_of (recent_transactions p)) = Inr hi"
    using py_min_Inr [OF ne] py_max_Inr [OF ne] by blast
  with False show ?thesis
    by (simp add: transaction_findings_def Let_def)
qed

lemma generate_enhanced_findings_Inr:
  "\<exists>fs. generate_enhanced_findings p sr contributions = Inr fs \<and> 2 \<le> length fs"
proof -
  define f0 where "f0 = [''Customer '' @ customer_id p @ '' analysis completed with ''
                        @ str_nat (length contributions) @ '' agent contributions'']"
  define f3 where "f3 = product_findings p (credit_findings p (income_findings p f0))"
  have "2 \<le> length f3"
    using length_product_findings [of "credit_findings p (income_findings p f0)" p]
      length_credit_findings [of "income_findings p f0" p] length_income_findings [of p f0]
    by (simp add: f3_def f0_def)
  moreover obtain f4 where f4: "transaction_findings p f3 = Inr f4" "length f3 \<le> length f4"
    using transaction_findings_Inr by blast
  moreover have "length f4 \<le> length (policy_findings sr f4)"
    by (rule length_policy_findings)
  moreover have "generate_enhanced_findings p sr contributions = Inr (policy_findings sr f4)"
    using f4(1) by (simp add: generate_enhanced_findings_def Let_def f0_def f3_def)
  ultimately show ?thesis by auto
qed

lemma length_risk_recommendations: "1 \<le> length (risk_recommendations s)"
  by (simp add: risk_recommendations_def Let_def)

lemma length_rule_based_recommendations: "1 \<le> length (rule_based_recommendations p s)"
  using length_risk_recommendations [of s]
  by (simp add: rule_based_recommendations_def Let_def)

text \<open>
  C7. For every profile, list of search results, contribution mapping and score, the
  findings are returned and have at least one entry; the recommendations have at least one
  entry, indeed at least two, because the advisory recommendation is appended whenever the
  rules gave fewer than two.
\<close>

theorem findings_and_recommendations_nonempty:
  "(\<exists>fs. generate_enhanced_findings p sr contributions = Inr fs \<and> 1 \<le> length fs)
   \<and> 1 \<le> length (generate_enhanced_recommendations p s)
   \<and> 2 \<le> length (generate_enhanced_recommendations p s)
   \<and> (length (rule_based_recommendations p s) < 2 \<longrightarrow>
        generate_enhanced_recommendations p s
          = rule_based_recommendations p s @ [advisory_recommendation])"
proof -
  obtain fs where "generate_enhanced_findings p sr contributions = Inr fs" "2 \<le> length fs"
    using generate_enhanced_findings_Inr by blast
  then have "\<exists>fs. generate_enhanced_findings p sr contributions = Inr fs \<and> 1 \<le> length fs"
    by auto
  moreover have "2 \<le> length (generate_enhanced_recommendations p s)"
    using length_rule_based_recommendations [of p s]
    by (simp add: generate_enhanced_recommendations_def Let_def)
  moreover have "length (rule_based_recommendations p s) < 2 \<longrightarrow>
        generate_enhanced_recommendations p s
          = rule_based_recommendations p s @ [advisory_recommendation]"
    by (simp add: generate_enhanced_recommendations_def Let_def)
  ultimately show ?thesis by simp
qed

theorem findings_and_recommendations_nonempty_witness:
  "length (rule_based_recommendations profile_12345 (7 / 100)) < 2
   \<and> generate_enhanced_recommendations profile_12345 (7 / 100)
       = [''Continue standard monitoring with annual reviews'', advisory_recommendation]
   \<and> (\<exists>fs. generate_enhanced_findings profile_12345 [] [] = Inr fs \<and> 1 \<le> length fs)"
proof -
  have r: "rule_based_recommendations profile_12345 (7 / 100)
      = [''Continue standard monitoring with annual reviews'']"
    by code_simp
  then have l: "length (rule_based_recommendations profile_12345 (7 / 100)) < 2" by simp
  from findings_and_recommendations_nonempty [of profile_12345 "[]" "[]" "7 / 100"] l r
  show ?thesis by simp
qed

section \<open>What the context includes\<close>

lemma fold_append_concat: "fold (\<lambda>x acc. acc @ f x) xs init = init @ concat (map f xs)"
  by (induction xs arbitrary: init) simp_all

lemma fold_entries_concat:
  "fold (\<lambda>(i, r) acc. acc @ g i r) xs init = init @ concat (map (\<lambda>(i, r). g i r) xs)"
  by (induction xs arbitrary: init) (simp_all add: split_def)

lemma enumerate_map: "enumerate n (map f xs) = map (\<lambda>(i, r). (i, f r)) (enumerate n xs)"
  by (induction xs arbitrary: n) simp_all

lemma excerpt_text_truncated:
  "excerpt_text (r\<lparr>document := map_option (take 500) (document r)\<rparr>) = excerpt_text r"
  by (cases "document r") (simp_all add: excerpt_text_def document_text_def)

lemma policy_entry_truncated:
  "policy_entry i (r\<lparr>document := map_option (take 500) (document r)\<rparr>) = policy_entry i r"
  by (cases "final_score r") (simp_all add: policy_entry_def excerpt_text_truncated)

lemma policy_context_concat:
  "policy_context sr =
     nl @ ''RELEVANT BANKING POLICIES:'' @ nl
     @ concat (map (\<lambda>(i, r). policy_entry i r) (enumerate 1 (take 6 sr)))"
  by (simp add: policy_context_def fold_entries_concat)

lemma policy_context_truncated:
  "policy_context (map (\<lambda>r. r\<lparr>document := map_option (take 500) (document r)\<rparr>) (take 6 sr))
     = policy_context sr"
proof -
  let ?f = "\<lambda>r. r\<lparr>document := map_option (take 500) (document r)\<rparr>"
  have "take 6 (map ?f (take 6 sr)) = map ?f (take 6 sr)" by simp
  then show ?thesis
    unfolding policy_context_concat
    by (simp add: enumerate_map split_def policy_entry_truncated comp_def)
qed

lemma tx_context_truncated:
  "tx_context (p\<lparr>recent_transactions := take 10 (recent_transactions p)\<rparr>) = tx_context p"
  by (simp add: tx_context_def)

lemma customer_context_transactions:
  "customer_context (p\<lparr>recent_transactions := txs\<rparr>) = customer_context p"
  by (simp add: customer_context_def)

text \<open>
  C8. The transaction part of the context is made of the lines of the first 10
  transactions, the policy part of the entries of the first 6 excerpts, and every entry
  holds at most 500 characters of excerpt text; the context is the same as for the profile
  cut to its first 10 transactions and the first 6 excerpts, each cut to 500 characters.
\<close>

theorem context_truncation:
  "tx_context p
     = nl @ ''RECENT TRANSACTIONS:'' @ nl
       @ concat (map tx_line (take 10 (recent_transactions p)))
   \<and> length (take 10 (recent_transactions p)) \<le> 10
   \<and> policy_context sr
     = nl @ ''RELEVANT BANKING POLICIES:'' @ nl
       @ concat (map (\<lambda>(i, r). policy_entry i r) (enumerate 1 (take 6 sr)))
   \<and> length (enumerate 1 (take 6 sr)) \<le> 6
   \<and> (\<forall>r. length (excerpt_text r) \<le> 500)
   \<and> prepare_enhanced_context pf p sr q
     = prepare_enhanced_context pf
         (p\<lparr>recent_transactions := take 10 (recent_transactions p)\<rparr>)
         (map (\<lambda>r. r\<lparr>document := map_option (take 500) (document r)\<rparr>) (take 6 sr)) q"
proof (intro conjI)
  show "tx_context p
     = nl @ ''RECENT TRANSACTIONS:'' @ nl
       @ concat (map tx_line (take 10 (recent_transactions p)))"
    by (simp add: tx_context_def fold_append_concat)
  show "policy_context sr
     = nl @ ''RELEVANT BANKING POLICIES:'' @ nl
       @ concat (map (\<lambda>(i, r). policy_entry i r) (enumerate 1 (take 6 sr)))"
    by (rule policy_context_concat)
  show "\<forall>r. length (excerpt_text r) \<le> 500"
    by (simp add: excerpt_text_def)
  show "prepare_enhanced_context pf p sr q
     = prepare_enhanced_context pf
         (p\<lparr>recent_transactions := take 10 (recent_transactions p)\<rparr>)
         (map (\<lambda>r. r\<lparr>document := map_option (take 500) (document r)\<rparr>) (take 6 sr)) q"
    unfolding prepare_enhanced_context_def tx_context_truncated policy_context_truncated
      customer_context_transactions
    by (rule refl)
qed simp_all

theorem context_truncation_witness:
  "length (document_text sample_excerpt) = 600
   \<and> length (excerpt_text sample_excerpt) \<le> 500
   \<and> length (enumerate 1 (take 6 (replicate 8 sample_excerpt))) \<le> 6
   \<and> length (take 10 (recent_transactions
        (profile_12345\<lparr>recent_transactions := replicate 12 (tx 20 ''Coffee'' ''2024-03-21'')\<rparr>)))
       \<le> 10
   \<and> prepare_enhanced_context ''PF''
        (profile_12345\<lparr>recent_transactions := replicate 12 (tx 20 ''Coffee'' ''2024-03-21'')\<rparr>)
        (replicate 8 sample_excerpt) ''loan''
     = prepare_enhanced_context ''PF''
        ((profile_12345\<lparr>recent_transactions := replicate 12 (tx 20 ''Coffee'' ''2024-03-21'')\<rparr>)
           \<lparr>recent_transactions := take 10 (recent_transactions
              (profile_12345\<lparr>recent_transactions :=
                 replicate 12 (tx 20 ''Coffee'' ''2024-03-21'')\<rparr>))\<rparr>)
        (map (\<lambda>r. r\<lparr>document := map_option (take 500) (document r)\<rparr>)
           (take 6 (replicate 8 sample_excerpt))) ''loan''"
proof -
  have d: "length (document_text sample_excerpt) = 600"
    by (simp add: document_text_def sample_excerpt_def)
  from context_truncation
    [of "profile_12345\<lparr>recent_transactions := replicate 12 (tx 20 ''Coffee'' ''2024-03-21'')\<rparr>"
        "replicate 8 sample_excerpt" "''PF''" "''loan''"] d
  show ?thesis by blast
qed

section \<open>A run whose agents fail\<close>

lemma interaction_log_begin_run: "interaction_log (begin_run w st) = interaction_log st"
  by (simp add: begin_run_def Let_def)

lemma successful_analyses_begin_run:
  "successful_analyses (begin_run w st) = successful_analyses st"
  by (simp add: begin_run_def Let_def)

lemma try_block_orchestration_raises:
  "snd (orchestrate w create_enhanced_agents (orchestration_task ctx)) = Inl e
     \<Longrightarrow> try_block w cid q p sr ctx = Inl e"
  by (simp add: try_block_def Let_def split_def)

text \<open>
  C6. When the documents and the search are available and the orchestration of the agents
  raises \<open>e\<close> (a failing stage, or the timeout of 180 seconds), the run returns no report:
  it raises, and it raises \<open>e\<close> itself unless stopping the runtime raises in turn; the
  interaction log grows by exactly one record, the failure of this customer with the
  message of \<open>e\<close>; no success is counted.
\<close>

theorem stage_failure_recorded:
  assumes "load_enhanced_documents w = None"
    and "hybrid_search w q = Inr sr"
    and "snd (orchestrate w create_enhanced_agents
                (orchestration_task
                   (prepare_enhanced_context (policy_framework_text w)
                      (lookup_profile (begin_run w st) cid) sr q))) = Inl e"
  shows "(\<exists>e'. fst (run_enhanced_analysis w st cid q) = Inl e')
       \<and> (stop_when_idle w = None \<longrightarrow> fst (run_enhanced_analysis w st cid q) = Inl e)
       \<and> interaction_log (snd (run_enhanced_analysis w st cid q))
           = interaction_log st
             @ [\<lparr>ir_customer_id = cid, ir_outcome = FailureReason (str_exception e),
                  ir_risk_score = None, ir_timestamp = now_isoformat w\<rparr>]
       \<and> successful_analyses (snd (run_enhanced_analysis w st cid q))
           = successful_analyses st"
proof -
  let ?p = "lookup_profile (begin_run w st) cid"
  let ?ctx = "prepare_enhanced_context (policy_framework_text w) ?p sr q"
  let ?st3 = "(begin_run w st)\<lparr>interaction_log :=
      record_failure (interaction_log (begin_run w st)) cid (str_exception e)
        (now_isoformat w)\<rparr>"
  have t: "try_block w cid q ?p sr ?ctx = Inl e"
    using assms(3) by (rule try_block_orchestration_raises)
  have run: "run_enhanced_analysis w st cid q
      = (case stop_when_idle w of Some e' \<Rightarrow> (Inl e', ?st3) | None \<Rightarrow> (Inl e, ?st3))"
    using assms(1,2) t by (simp add: run_enhanced_analysis_def Let_def)
  show ?thesis
    unfolding run
    by (cases "stop_when_idle w")
       (simp_all add: record_failure_def interaction_log_begin_run
          successful_analyses_begin_run)
qed

theorem stage_failure_recorded_witness:
  "fst (run_enhanced_analysis failing_world initial_state ''11111'' ''suspicious activity'')
     = Inl (OtherException ''service unavailable'')
   \<and> interaction_log
       (snd (run_enhanced_analysis failing_world initial_state ''11111'' ''suspicious activity''))
     = [\<lparr>ir_customer_id = ''11111'', ir_outcome = FailureReason ''service unavailable'',
          ir_risk_score = None, ir_timestamp = ''2026-11-03T14:30:00''\<rparr>]"
proof -
  have h: "load_enhanced_documents failing_world = None"
    "hybrid_search failing_world ''suspicious activity'' = Inr [sample_excerpt]"
    "stop_when_idle failing_world = None"
    "interaction_log initial_state = []"
    "now_isoformat failing_world = ''2026-11-03T14:30:00''"
    by (simp_all add: failing_world_def initial_state_def)
  have o: "snd (orchestrate failing_world create_enhanced_agents task)
      = Inl (OtherException ''service unavailable'')" for task
    by (simp add: failing_world_def)
  from stage_failure_recorded [OF h(1,2) o, of initial_state "''11111''"] h(3,4,5)
  show ?thesis by simp
qed

end
